theory Spec2Isabelle
  imports Complex_Main "HOL-Library.Word"
begin

unbundle bit_operations_syntax

section \<open>Go integers\<close>

text \<open>
  Go's \<open>/\<close> and \<open>%\<close> on signed integers truncate towards zero; the remainder takes the
  sign of the dividend. \<open>int64\<close> values are read from a \<open>64 word\<close> with \<open>sint\<close>, and a
  conversion \<open>int32(x)\<close> keeps the low 32 bits.
\<close>

definition go_quo :: "int \<Rightarrow> int \<Rightarrow> int" where
  "go_quo a b = (if (a < 0) = (b < 0) then \<bar>a\<bar> div \<bar>b\<bar> else - (\<bar>a\<bar> div \<bar>b\<bar>))"

definition go_rem :: "int \<Rightarrow> int \<Rightarrow> int" where
  "go_rem a b = a - b * go_quo a b"

definition to_int32 :: "int \<Rightarrow> 32 word" where
  "to_int32 x = word_of_int x"

definition to_int64 :: "int \<Rightarrow> 64 word" where
  "to_int64 x = word_of_int x"

section \<open>Strings\<close>

definition digit_char :: "nat \<Rightarrow> char" where
  "digit_char d = ''0123456789'' ! d"

fun nat_decimal :: "nat \<Rightarrow> string" where
  "nat_decimal n = (if n < 10 then [digit_char n] else nat_decimal (n div 10) @ [digit_char (n mod 10)])"

declare nat_decimal.simps [simp del]

text \<open>\<open>strconv\<close>'s rendering of a signed integer, as \<open>%d\<close> and \<open>AppendInt\<close> print it.\<close>

definition int_decimal :: "int \<Rightarrow> string" where
  "int_decimal i = (if i < 0 then CHR ''-'' # nat_decimal (nat (- i)) else nat_decimal (nat i))"

fun strings_Join :: "string list \<Rightarrow> string \<Rightarrow> string" where
  "strings_Join [] sep = []"
| "strings_Join [x] sep = x"
| "strings_Join (x # y # ys) sep = x @ sep @ strings_Join (y # ys) sep"

definition strings_HasPrefix :: "string \<Rightarrow> string \<Rightarrow> bool" where
  "strings_HasPrefix s p = (take (length p) s = p)"

definition strings_TrimSuffix :: "string \<Rightarrow> string \<Rightarrow> string" where
  "strings_TrimSuffix s suf =
     (if length suf \<le> length s \<and> drop (length s - length suf) s = suf
      then take (length s - length suf) s else s)"

section \<open>Elasticsearch node sets (render/logstorage.go)\<close>

record NodeSetSelectionAttribute =
  attr_Name :: string
  attr_NodeLabel :: string
  attr_Value :: string

text \<open>\<open>operatorv1.NodeSet\<close>: \<open>SelectionAttributes\<close> is a slice, \<open>None\<close> when nil.\<close>

record NodeSetConfig =
  SelectionAttributes :: "NodeSetSelectionAttribute list option"

datatype config_value = CfgString string | CfgInt int | CfgStrings "string list"

record NodeSelectorRequirement =
  req_Key :: string
  req_Operator :: string
  req_Values :: "string list"

text \<open>
  The pod template that \<open>podTemplate()\<close> builds is kept whole in \<open>pt_Template\<close>; the one
  field \<open>nodeSets\<close> assigns afterwards, the node affinity's match expressions, is its own
  field.
\<close>

record 'pt PodTemplateSpec =
  pt_Template :: 'pt
  pt_Affinity :: "NodeSelectorRequirement list option"

record ('pvc, 'pt) NodeSet =
  ns_Name :: string
  ns_Count :: "32 word"
  ns_Config :: "string \<rightharpoonup> config_value"
  ns_VolumeClaimTemplates :: "'pvc list"
  ns_PodTemplate :: "'pt PodTemplateSpec option"

text \<open>
  What \<open>nodeSets\<close> reads of the component: \<open>Spec.Nodes\<close> of the LogStorage (its count and
  node set list; \<open>None\<close> when the pointer is nil), the PVC template and its thumbprint
  name, the two installation switches \<open>nodeSetTemplate\<close> looks at, and the pod template.
\<close>

record NodesConfig =
  nodes_Count :: "64 word"
  nodes_NodeSets :: "NodeSetConfig list"

record ('pvc, 'pt) nodeSetsInput =
  in_Nodes :: "NodesConfig option"
  in_pvcTemplate :: 'pvc
  in_nodeSetName :: string
  in_CertificateManagement :: bool
  in_FIPSMode :: bool
  in_podTemplate :: "'pt PodTemplateSpec"

definition nodeSetTemplate :: "('pvc, 'pt) nodeSetsInput \<Rightarrow> 'pvc \<Rightarrow> ('pvc, 'pt) NodeSet" where
  "nodeSetTemplate es pvcTemplate =
     (let config = [''node.master'' \<mapsto> CfgString ''true'',
                    ''node.data'' \<mapsto> CfgString ''true'',
                    ''node.ingest'' \<mapsto> CfgString ''true'',
                    ''cluster.max_shards_per_node'' \<mapsto> CfgInt 10000];
          config = (if in_CertificateManagement es
                    then config(''xpack.security.http.ssl.certificate_authorities'' \<mapsto>
                           CfgStrings [''/usr/share/elasticsearch/config/http-certs/ca.crt''])
                    else config);
          config = (if in_FIPSMode es
                    then config(''xpack.security.fips_mode.enabled'' \<mapsto> CfgString ''true'',
                                ''xpack.security.authc.password_hashing.algorithm'' \<mapsto>
                                  CfgString ''pbkdf2_stretch'')
                    else config)
      in \<lparr> ns_Name = [], ns_Count = 0, ns_Config = config,
           ns_VolumeClaimTemplates = [pvcTemplate], ns_PodTemplate = None \<rparr>)"

text \<open>The inner loop over the selection attributes of one node set.\<close>

fun selectionLoop ::
  "NodeSetSelectionAttribute list \<Rightarrow> (string \<rightharpoonup> config_value) \<Rightarrow> string list \<Rightarrow>
   NodeSelectorRequirement list \<Rightarrow>
   (string \<rightharpoonup> config_value) \<times> string list \<times> NodeSelectorRequirement list" where
  "selectionLoop [] data esAwarenessAttrs nodeSelectorRequirements =
     (data, esAwarenessAttrs, nodeSelectorRequirements)"
| "selectionLoop (attr # attrs) data esAwarenessAttrs nodeSelectorRequirements =
     selectionLoop attrs
       (data(''node.attr.'' @ attr_Name attr \<mapsto> CfgString (attr_Value attr)))
       (esAwarenessAttrs @ [attr_Name attr])
       (nodeSelectorRequirements @
          [\<lparr> req_Key = attr_NodeLabel attr, req_Operator = ''In'',
             req_Values = [attr_Value attr] \<rparr>])"

text \<open>The node count of the node set at index \<open>i\<close>, an \<open>int64\<close>.\<close>

definition numNodes :: "int \<Rightarrow> int \<Rightarrow> nat \<Rightarrow> int" where
  "numNodes count len i =
     (let baseNumNodes = go_quo count len
      in if int i < go_rem count len then sint (to_int64 (baseNumNodes + 1)) else baseNumNodes)"

definition buildNodeSet ::
  "('pvc, 'pt) nodeSetsInput \<Rightarrow> nat \<Rightarrow> int \<Rightarrow> NodeSetConfig \<Rightarrow> ('pvc, 'pt) NodeSet" where
  "buildNodeSet es i n nodeSetConfig =
     (let nodeSet = nodeSetTemplate es (in_pvcTemplate es);
          nodeSet = nodeSet\<lparr> ns_Name := in_nodeSetName es @ ''-'' @ nat_decimal i,
                              ns_Count := to_int32 n \<rparr>;
          podTemplate = in_podTemplate es
      in case SelectionAttributes nodeSetConfig of
           None \<Rightarrow> nodeSet\<lparr> ns_PodTemplate := Some podTemplate \<rparr>
         | Some attrs \<Rightarrow>
             (case selectionLoop attrs (ns_Config nodeSet) [] [] of
                (data, esAwarenessAttrs, nodeSelectorRequirements) \<Rightarrow>
                  nodeSet\<lparr> ns_Config :=
                              data(''cluster.routing.allocation.awareness.attributes'' \<mapsto>
                                     CfgString (strings_Join esAwarenessAttrs '','')),
                            ns_PodTemplate :=
                              Some (podTemplate\<lparr> pt_Affinity := Some nodeSelectorRequirements \<rparr>) \<rparr>))"

text \<open>
  The \<open>range\<close> loop over \<open>nodeConfig.NodeSets\<close>, with its \<open>break\<close> at the first index
  whose node count is below 1.
\<close>

fun nodeSetsLoop ::
  "('pvc, 'pt) nodeSetsInput \<Rightarrow> int \<Rightarrow> int \<Rightarrow> nat \<Rightarrow> NodeSetConfig list \<Rightarrow>
   ('pvc, 'pt) NodeSet list \<Rightarrow> ('pvc, 'pt) NodeSet list" where
  "nodeSetsLoop es count len i [] nodeSets = nodeSets"
| "nodeSetsLoop es count len i (nodeSetConfig # rest) nodeSets =
     (let n = numNodes count len i
      in if n < 1 then nodeSets
         else nodeSetsLoop es count len (Suc i) rest
                (nodeSets @ [buildNodeSet es i n nodeSetConfig]))"

text \<open>\<open>nodeSets\<close>; the result \<open>None\<close> is the nil slice returned when \<open>Spec.Nodes\<close> is nil.\<close>

definition nodeSets :: "('pvc, 'pt) nodeSetsInput \<Rightarrow> ('pvc, 'pt) NodeSet list option" where
  "nodeSets es =
     (case in_Nodes es of
        None \<Rightarrow> None
      | Some nodeConfig \<Rightarrow>
          (if length (nodes_NodeSets nodeConfig) < 1
           then Some [(nodeSetTemplate es (in_pvcTemplate es))
                        \<lparr> ns_Name := in_nodeSetName es,
                          ns_Count := to_int32 (sint (nodes_Count nodeConfig)),
                          ns_PodTemplate := Some (in_podTemplate es) \<rparr>]
           else Some (nodeSetsLoop es (sint (nodes_Count nodeConfig))
                        (int (length (nodes_NodeSets nodeConfig))) 0
                        (nodes_NodeSets nodeConfig) [])))"

text \<open>A small component for concrete runs: \<open>k\<close> plain node sets and a node count of \<open>n\<close>.\<close>

definition exampleNodeSetsInput :: "int \<Rightarrow> nat \<Rightarrow> (unit, unit) nodeSetsInput" where
  "exampleNodeSetsInput n k =
     \<lparr> in_Nodes = Some \<lparr> nodes_Count = word_of_int n,
                          nodes_NodeSets = replicate k \<lparr> SelectionAttributes = None \<rparr> \<rparr>,
       in_pvcTemplate = (), in_nodeSetName = ''es'', in_CertificateManagement = False,
       in_FIPSMode = False,
       in_podTemplate = \<lparr> pt_Template = (), pt_Affinity = None \<rparr> \<rparr>"

section \<open>Resource quantities (apimachinery \<open>resource.Quantity\<close>, \<open>inf.Dec\<close>)\<close>

text \<open>
  A quantity is the decimal number \<open>q_value * 10 ^ q_scale\<close> together with the format it
  prints in: \<open>250m\<close> is value 250 at scale \<open>-3\<close>, \<open>2G\<close> is value 2 at scale 9, \<open>2Gi\<close> is
  value 2147483648 at scale 0. An \<open>inf.Dec\<close> is \<open>unscaled * 10 ^ (- scale)\<close>.
\<close>

datatype Format = DecimalExponent | BinarySI | DecimalSI

record Quantity =
  q_value :: int
  q_scale :: int
  q_Format :: Format

record Dec =
  unscaled :: int
  scale :: int

definition NewDec :: "int \<Rightarrow> int \<Rightarrow> Dec" where
  "NewDec u s = \<lparr> unscaled = u, scale = s \<rparr>"

definition AsDec :: "Quantity \<Rightarrow> Dec" where
  "AsDec q = NewDec (q_value q) (- q_scale q)"

text \<open>\<open>QuoRound(x, y, 0, inf.RoundFloor)\<close>: the quotient rounded down to an integer.\<close>

definition QuoRoundFloor :: "Dec \<Rightarrow> Dec \<Rightarrow> Dec" where
  "QuoRoundFloor x y =
     (let n = unscaled x * 10 ^ nat (scale y) * 10 ^ nat (- scale x);
          d = unscaled y * 10 ^ nat (scale x) * 10 ^ nat (- scale y)
      in NewDec (n div d) 0)"

definition Dec_Mul :: "Dec \<Rightarrow> Dec \<Rightarrow> Dec" where
  "Dec_Mul x y = NewDec (unscaled x * unscaled y) (scale x + scale y)"

definition Dec_Cmp :: "Dec \<Rightarrow> Dec \<Rightarrow> int" where
  "Dec_Cmp x y =
     (let a = unscaled x * 10 ^ nat (scale y - scale x);
          b = unscaled y * 10 ^ nat (scale x - scale y)
      in if a < b then - 1 else if a = b then 0 else 1)"

text \<open>\<open>big.Int.Int64()\<close>: the low 64 bits, read as a signed integer.\<close>

definition Int64 :: "int \<Rightarrow> int" where
  "Int64 x = sint (word_of_int x :: 64 word)"

text \<open>
  \<open>resource.NewQuantity(v, resource.BinarySI).String()\<close>: zero prints as \<open>0\<close>; a value
  strictly between \<open>-1024\<close> and 1024 prints in decimal SI form; any other value has its
  factors of 1024 removed and the matching binary suffix appended.
\<close>

function removeInt64Factors1024 :: "int \<Rightarrow> nat \<Rightarrow> int \<times> nat" where
  "removeInt64Factors1024 result cnt =
     (if result \<ge> 1024 \<and> result mod 1024 = 0
      then removeInt64Factors1024 (result div 1024) (Suc cnt)
      else (result, cnt))"
  by pat_completeness auto
termination
  by (relation "measure (\<lambda>(r, t). nat r)") auto

declare removeInt64Factors1024.simps [simp del]

definition binarySuffix :: "nat \<Rightarrow> string" where
  "binarySuffix e = (if e = 0 then [] else if e = 1 then ''Ki'' else if e = 2 then ''Mi''
     else if e = 3 then ''Gi'' else if e = 4 then ''Ti'' else if e = 5 then ''Pi'' else ''Ei'')"

definition BinarySI_String :: "int \<Rightarrow> string" where
  "BinarySI_String v =
     (if v = 0 then ''0''
      else if - 1024 < v \<and> v < 1024
      then (if \<bar>v\<bar> = 1000 then int_decimal (v div 1000) @ ''k'' else int_decimal v)
      else (case removeInt64Factors1024 \<bar>v\<bar> 0 of
              (amount, cnt) \<Rightarrow>
                int_decimal (if v < 0 then - amount else amount) @ binarySuffix cnt))"

subsection \<open>JVM heap size (render/logstorage.go)\<close>

definition memoryQuantityToJVMHeapSize :: "Quantity \<Rightarrow> string" where
  "memoryQuantityToJVMHeapSize q =
     (let rawMemQuantity = AsDec q;
          divisor = NewDec 2 0;
          halvedQuantity = QuoRoundFloor rawMemQuantity divisor;
          divisor = NewDec 1024 0;
          factor = QuoRoundFloor halvedQuantity divisor;
          roundedToNearest = Dec_Mul factor divisor;
          newRawMemQuantity = Int64 (unscaled roundedToNearest);
          minLimit = NewDec 2097152 0;
          newRawMemQuantity = (if Dec_Cmp roundedToNearest minLimit < 0
                               then Int64 (unscaled minLimit) else newRawMemQuantity);
          maxLimit = NewDec 27917287424 0;
          newRawMemQuantity = (if Dec_Cmp roundedToNearest maxLimit > 0
                               then Int64 (unscaled maxLimit) else newRawMemQuantity)
      in strings_TrimSuffix (BinarySI_String newRawMemQuantity) ''i'')"


text \<open>
  The claim's wording of the heap size: the number a quantity or decimal stands for, and half
  of it rounded down to a multiple of 1024, clamped to 2 MiB below and 26 GiB above.
\<close>


definition Dec_value :: "Dec \<Rightarrow> real" where
  "Dec_value d = of_int (unscaled d) * 10 ^ nat (- scale d) / 10 ^ nat (scale d)"

definition Quantity_value :: "Quantity \<Rightarrow> real" where
  "Quantity_value q = of_int (q_value q) * 10 ^ nat (q_scale q) / 10 ^ nat (- q_scale q)"

definition jvmHeapBytes_spec :: "Quantity \<Rightarrow> int" where
  "jvmHeapBytes_spec q =
     max 2097152 (min 27917287424 (1024 * \<lfloor>Quantity_value q / 2 / 1024\<rfloor>))"

subsection \<open>Resource requirements (render/logstorage.go)\<close>

datatype panic = NilMapAssignment | NilPointerDereference

text \<open>
  \<open>Quantity.Value()\<close>: the quantity as an integer, rounded away from zero when it has a
  fractional part.
\<close>

definition Quantity_Value :: "Quantity \<Rightarrow> int" where
  "Quantity_Value q =
     (if 0 \<le> q_scale q then q_value q * 10 ^ nat (q_scale q)
      else (let d = 10 ^ nat (- q_scale q);
                c = (\<bar>q_value q\<bar> + d - 1) div d
            in if q_value q < 0 then - c else c))"

text \<open>
  A \<open>corev1.ResourceList\<close> is a Go map from resource names to quantities; \<open>None\<close> is the nil
  map, which reads as empty and panics on assignment.
\<close>

type_synonym ResourceList = "(string \<rightharpoonup> Quantity) option"

record ResourceRequirements =
  Limits :: ResourceList
  Requests :: ResourceList

definition rl_lookup :: "ResourceList \<Rightarrow> string \<Rightarrow> Quantity option" where
  "rl_lookup rl name = (case rl of None \<Rightarrow> None | Some m \<Rightarrow> m name)"

definition rl_assign :: "ResourceList \<Rightarrow> string \<Rightarrow> Quantity \<Rightarrow> panic + ResourceList" where
  "rl_assign rl name q =
     (case rl of None \<Rightarrow> Inl NilMapAssignment | Some m \<Rightarrow> Inr (Some (m(name \<mapsto> q))))"

text \<open>\<open>ResourceList.Name\<close>: the entry, or a zero quantity of the default format.\<close>

definition rl_Name :: "ResourceList \<Rightarrow> string \<Rightarrow> Format \<Rightarrow> Quantity" where
  "rl_Name rl name defaultFormat =
     (case rl_lookup rl name of
        Some val \<Rightarrow> val
      | None \<Rightarrow> \<lparr> q_value = 0, q_scale = 0, q_Format = defaultFormat \<rparr>)"

definition Cpu :: "ResourceList \<Rightarrow> Quantity" where
  "Cpu rl = rl_Name rl ''cpu'' DecimalSI"

definition Memory :: "ResourceList \<Rightarrow> Quantity" where
  "Memory rl = rl_Name rl ''memory'' BinarySI"

definition andThen :: "'e + 'a \<Rightarrow> ('a \<Rightarrow> 'e + 'b) \<Rightarrow> 'e + 'b" where
  "andThen r f = (case r of Inl e \<Rightarrow> Inl e | Inr v \<Rightarrow> f v)"

text \<open>
  \<open>overrideResourceRequirements\<close>. The Go code copies the struct \<open>defaultReq\<close> into
  \<open>updatedReq\<close>; the two share their maps, so every later read of \<open>defaultReq\<close> sees the
  assignments made through \<open>updatedReq\<close>. The model threads the one shared pair of maps
  \<open>req\<close> through the four blocks.
\<close>

definition overrideLimitsCpu :: "ResourceRequirements \<Rightarrow> ResourceRequirements \<Rightarrow> panic + ResourceRequirements" where
  "overrideLimitsCpu userOverrides req =
     (case rl_lookup (Limits userOverrides) ''cpu'' of
        None \<Rightarrow> Inr req
      | Some _ \<Rightarrow>
          andThen (rl_assign (Limits req) ''cpu'' (Cpu (Limits userOverrides))) (\<lambda>limits.
            let req = req\<lparr> Limits := limits \<rparr>
            in if rl_lookup (Requests userOverrides) ''cpu'' = None \<and>
                  Quantity_Value (Cpu (Requests req)) > Quantity_Value (Cpu (Limits userOverrides))
               then andThen (rl_assign (Requests req) ''cpu'' (Cpu (Limits userOverrides)))
                      (\<lambda>requests. Inr (req\<lparr> Requests := requests \<rparr>))
               else Inr req))"

definition overrideLimitsMemory :: "ResourceRequirements \<Rightarrow> ResourceRequirements \<Rightarrow> panic + ResourceRequirements" where
  "overrideLimitsMemory userOverrides req =
     (case rl_lookup (Limits userOverrides) ''memory'' of
        None \<Rightarrow> Inr req
      | Some _ \<Rightarrow>
          andThen (rl_assign (Limits req) ''memory'' (Memory (Limits userOverrides))) (\<lambda>limits.
            let req = req\<lparr> Limits := limits \<rparr>
            in if rl_lookup (Requests userOverrides) ''memory'' = None \<and>
                  Quantity_Value (Memory (Requests req)) > Quantity_Value (Memory (Limits userOverrides))
               then andThen (rl_assign (Requests req) ''memory'' (Memory (Limits userOverrides)))
                      (\<lambda>requests. Inr (req\<lparr> Requests := requests \<rparr>))
               else Inr req))"

definition overrideRequestsCpu :: "ResourceRequirements \<Rightarrow> ResourceRequirements \<Rightarrow> panic + ResourceRequirements" where
  "overrideRequestsCpu userOverrides req =
     (case rl_lookup (Requests userOverrides) ''cpu'' of
        None \<Rightarrow> Inr req
      | Some _ \<Rightarrow>
          andThen (rl_assign (Requests req) ''cpu'' (Cpu (Requests userOverrides))) (\<lambda>requests.
            let req = req\<lparr> Requests := requests \<rparr>
            in if rl_lookup (Limits userOverrides) ''cpu'' = None \<and>
                  Quantity_Value (Cpu (Limits req)) < Quantity_Value (Cpu (Requests userOverrides))
               then andThen (rl_assign (Limits req) ''cpu'' (Cpu (Requests userOverrides)))
                      (\<lambda>limits. Inr (req\<lparr> Limits := limits \<rparr>))
               else Inr req))"

definition overrideRequestsMemory :: "ResourceRequirements \<Rightarrow> ResourceRequirements \<Rightarrow> panic + ResourceRequirements" where
  "overrideRequestsMemory userOverrides req =
     (case rl_lookup (Requests userOverrides) ''memory'' of
        None \<Rightarrow> Inr req
      | Some _ \<Rightarrow>
          andThen (rl_assign (Requests req) ''memory'' (Memory (Requests userOverrides))) (\<lambda>requests.
            let req = req\<lparr> Requests := requests \<rparr>
            in if rl_lookup (Limits userOverrides) ''memory'' = None \<and>
                  Quantity_Value (Memory (Limits req)) < Quantity_Value (Memory (Requests userOverrides))
               then andThen (rl_assign (Limits req) ''memory'' (Memory (Requests userOverrides)))
                      (\<lambda>limits. Inr (req\<lparr> Limits := limits \<rparr>))
               else Inr req))"

definition overrideResourceRequirements ::
  "ResourceRequirements \<Rightarrow> ResourceRequirements \<Rightarrow> panic + ResourceRequirements" where
  "overrideResourceRequirements defaultReq userOverrides =
     andThen (overrideLimitsCpu userOverrides defaultReq) (\<lambda>req.
     andThen (overrideLimitsMemory userOverrides req) (\<lambda>req.
     andThen (overrideRequestsCpu userOverrides req) (\<lambda>req.
     overrideRequestsMemory userOverrides req)))"

text \<open>The quantities \<open>resource.MustParse\<close> yields for the literals of \<open>resourceRequirements\<close>, and its defaults.\<close>

definition MustParse_1 :: Quantity where
  "MustParse_1 = \<lparr> q_value = 1, q_scale = 0, q_Format = DecimalSI \<rparr>"

definition MustParse_250m :: Quantity where
  "MustParse_250m = \<lparr> q_value = 250, q_scale = - 3, q_Format = DecimalSI \<rparr>"

definition MustParse_4Gi :: Quantity where
  "MustParse_4Gi = \<lparr> q_value = 4294967296, q_scale = 0, q_Format = BinarySI \<rparr>"

definition defaultResources :: ResourceRequirements where
  "defaultResources =
     \<lparr> Limits = Some [''cpu'' \<mapsto> MustParse_1, ''memory'' \<mapsto> MustParse_4Gi],
       Requests = Some [''cpu'' \<mapsto> MustParse_250m, ''memory'' \<mapsto> MustParse_4Gi] \<rparr>"

text \<open>A user override that sets only a CPU limit of \<open>100m\<close>.\<close>

definition MustParse_100m :: Quantity where
  "MustParse_100m = \<lparr> q_value = 100, q_scale = - 3, q_Format = DecimalSI \<rparr>"

definition cpuLimitOnly :: ResourceRequirements where
  "cpuLimitOnly = \<lparr> Limits = Some [''cpu'' \<mapsto> MustParse_100m], Requests = None \<rparr>"

text \<open>Comparison of the numbers two quantities stand for (\<open>Quantity.Cmp\<close>).\<close>

definition Quantity_Cmp :: "Quantity \<Rightarrow> Quantity \<Rightarrow> int" where
  "Quantity_Cmp a b = Dec_Cmp (AsDec a) (AsDec b)"

section \<open>Node set names (render/logstorage.go)\<close>

text \<open>
  \<open>hash/fnv\<close>'s 64-bit FNV-1a: \<open>New64a\<close> starts from the offset basis; \<open>Write\<close> folds each byte
  in by exclusive-or and multiplies by the prime, returns the number of bytes and never an
  error; \<open>Sum\<close> appends the hash as eight bytes, most significant first.
\<close>

definition fnv_New64a :: "64 word" where
  "fnv_New64a = 14695981039346656037"

fun fnv64a_loop :: "64 word \<Rightarrow> 8 word list \<Rightarrow> 64 word" where
  "fnv64a_loop hash [] = hash"
| "fnv64a_loop hash (c # data) = fnv64a_loop ((hash XOR ucast c) * 1099511628211) data"

definition fnv64a_Write :: "64 word \<Rightarrow> 8 word list \<Rightarrow> 64 word \<times> nat \<times> string option" where
  "fnv64a_Write hash data = (fnv64a_loop hash data, length data, None)"

definition fnv64a_Sum :: "64 word \<Rightarrow> 8 word list \<Rightarrow> 8 word list" where
  "fnv64a_Sum v b =
     b @ [ucast (drop_bit 56 v), ucast (drop_bit 48 v), ucast (drop_bit 40 v),
          ucast (drop_bit 32 v), ucast (drop_bit 24 v), ucast (drop_bit 16 v),
          ucast (drop_bit 8 v), ucast v]"

text \<open>\<open>encoding/hex\<close>: two lower-case digits per byte, high nibble first.\<close>

definition hextable :: string where
  "hextable = ''0123456789abcdef''"

fun hex_EncodeToString :: "8 word list \<Rightarrow> string" where
  "hex_EncodeToString [] = []"
| "hex_EncodeToString (v # src) =
     hextable ! unat (drop_bit 4 v) # hextable ! unat (v AND 15) # hex_EncodeToString src"

text \<open>
  \<open>nodeSetName\<close>. \<open>json.Marshal\<close> of the PVC template is a parameter: it yields an error or
  the bytes of the serialization.
\<close>

definition nodeSetName :: "('pvc \<Rightarrow> string + 8 word list) \<Rightarrow> 'pvc \<Rightarrow> string" where
  "nodeSetName json_Marshal pvcTemplate =
     (let pvcTemplateHash = fnv_New64a
      in case json_Marshal pvcTemplate of
           Inl err \<Rightarrow> ''es''
         | Inr templateBytes \<Rightarrow>
             (case fnv64a_Write pvcTemplateHash templateBytes of
                (pvcTemplateHash, _, Some err) \<Rightarrow> ''es''
              | (pvcTemplateHash, _, None) \<Rightarrow> hex_EncodeToString (fnv64a_Sum pvcTemplateHash [])))"

text \<open>
  The claim's wording: the FNV-1a hash of a byte string as a number below \<open>2 ^ 64\<close>, and its
  sixteen hexadecimal digits.
\<close>

fun fnv1a64_spec :: "nat \<Rightarrow> nat list \<Rightarrow> nat" where
  "fnv1a64_spec h [] = h"
| "fnv1a64_spec h (b # bs) = fnv1a64_spec (((h XOR b) * 1099511628211) mod 2 ^ 64) bs"

fun hex_digits :: "nat \<Rightarrow> nat \<Rightarrow> string" where
  "hex_digits 0 n = []"
| "hex_digits (Suc k) n = hex_digits k (n div 16) @ [''0123456789abcdef'' ! (n mod 16)]"

definition hex16_spec :: "nat \<Rightarrow> string" where
  "hex16_spec n = hex_digits 16 n"

definition nodeSetName_spec :: "('pvc \<Rightarrow> string + 8 word list) \<Rightarrow> 'pvc \<Rightarrow> string" where
  "nodeSetName_spec json_Marshal pvcTemplate =
     (case json_Marshal pvcTemplate of
        Inl err \<Rightarrow> ''es''
      | Inr templateBytes \<Rightarrow> hex16_spec (fnv1a64_spec 14695981039346656037 (map unat templateBytes)))"

section \<open>Provider discovery (controller/utils/discovery.go)\<close>

text \<open>The providers of \<open>operatorv1\<close> that the sources name.\<close>

datatype Provider =
  ProviderNone | ProviderOpenShift | ProviderGKE | ProviderDockerEE | ProviderEKS | ProviderRKE2

definition Provider_string :: "Provider \<Rightarrow> string" where
  "Provider_string p =
     (case p of ProviderNone \<Rightarrow> [] | ProviderOpenShift \<Rightarrow> ''OpenShift'' | ProviderGKE \<Rightarrow> ''GKE''
      | ProviderDockerEE \<Rightarrow> ''DockerEnterprise'' | ProviderEKS \<Rightarrow> ''EKS'' | ProviderRKE2 \<Rightarrow> ''RKE2'')"

text \<open>
  What the discovery helpers ask of the API server. Every query yields an error or its
  answer: the names of the API groups, the label keys of each master node, and for a config
  map lookup the object (a pointer, \<open>None\<close> when nil), a not-found error or another error.
\<close>

datatype 'a get_result = Got "'a option" | NotFound string | GetFailed string

record 'cm clientset =
  ServerGroups :: "string + string list"
  MasterNodes :: "string + string list list"
  ConfigMaps :: "string \<Rightarrow> string \<Rightarrow> 'cm get_result"

fun autodetectLoop :: "string list \<Rightarrow> Provider list \<Rightarrow> Provider list" where
  "autodetectLoop [] detectedProviders = detectedProviders"
| "autodetectLoop (g # groups) detectedProviders =
     (let detectedProviders =
            (if g = ''config.openshift.io'' then detectedProviders @ [ProviderOpenShift]
             else detectedProviders);
          detectedProviders =
            (if g = ''networking.gke.io'' then detectedProviders @ [ProviderGKE]
             else detectedProviders)
      in autodetectLoop groups detectedProviders)"

definition autodetectFromGroup :: "'cm clientset \<Rightarrow> string + Provider list" where
  "autodetectFromGroup c =
     (case ServerGroups c of
        Inl err \<Rightarrow> Inl err
      | Inr groups \<Rightarrow> Inr (autodetectLoop groups []))"

definition isDockerEE :: "'cm clientset \<Rightarrow> string + bool" where
  "isDockerEE c =
     (case MasterNodes c of
        Inl err \<Rightarrow> Inl err
      | Inr masterNodes \<Rightarrow>
          Inr (\<exists>n \<in> set masterNodes. \<exists>l \<in> set n. strings_HasPrefix l ''com.docker.ucp''))"

definition isEKS :: "'cm clientset \<Rightarrow> string + bool" where
  "isEKS c =
     (case ConfigMaps c ''kube-system'' ''eks-certificates-controller'' of
        NotFound err \<Rightarrow> Inr False
      | GetFailed err \<Rightarrow> Inl err
      | Got cm \<Rightarrow> Inr (cm \<noteq> None))"

definition isRKE2 :: "'cm clientset \<Rightarrow> string + bool" where
  "isRKE2 c =
     (case ConfigMaps c ''kube-system'' ''rke2'' of
        NotFound err \<Rightarrow> Inr False
      | GetFailed err \<Rightarrow> Inl err
      | Got cm \<Rightarrow> Inr (cm \<noteq> None))"

text \<open>\<open>%s\<close> of a slice of providers: the names between brackets, separated by spaces.\<close>

definition Providers_string :: "Provider list \<Rightarrow> string" where
  "Providers_string ps = ''['' @ strings_Join (map Provider_string ps) '' '' @ '']''"

definition AutoDiscoverProvider :: "'cm clientset \<Rightarrow> Provider \<times> string option" where
  "AutoDiscoverProvider clientset =
     (let detectedProviders = [] in
      case autodetectFromGroup clientset of
        Inl err \<Rightarrow>
          (ProviderNone, Some (''Failed to check provider based on API groups: '' @ err))
      | Inr platform \<Rightarrow>
     (let detectedProviders = detectedProviders @ platform in
      case isDockerEE clientset of
        Inl err \<Rightarrow>
          (ProviderNone, Some (''Failed to check if Docker EE is the provider: '' @ err))
      | Inr dockeree \<Rightarrow>
     (let detectedProviders =
            (if dockeree then detectedProviders @ [ProviderDockerEE] else detectedProviders) in
      case isEKS clientset of
        Inl err \<Rightarrow> (ProviderNone, Some (''Failed to check if EKS is the provider: '' @ err))
      | Inr eks \<Rightarrow>
     (let detectedProviders =
            (if eks then detectedProviders @ [ProviderEKS] else detectedProviders) in
      case isRKE2 clientset of
        Inl err \<Rightarrow> (ProviderNone, Some (''Failed to check if RKE2 is the provider: '' @ err))
      | Inr rke2 \<Rightarrow>
     (let detectedProviders =
            (if rke2 then detectedProviders @ [ProviderRKE2] else detectedProviders) in
      if length detectedProviders > 1
      then (ProviderNone,
            Some (''Failed to assert provider caused by detection of more than one. Detected providers: ''
                  @ Providers_string detectedProviders))
      else if length detectedProviders = 1 then (detectedProviders ! 0, None)
      else (ProviderNone, None))))))"


definition queriesSucceed :: "'cm clientset \<Rightarrow> bool" where
  "queriesSucceed c =
     (isl (ServerGroups c) = False \<and> isl (MasterNodes c) = False
      \<and> isl (isEKS c) = False \<and> isl (isRKE2 c) = False)"

definition groupNamesDistinct :: "'cm clientset \<Rightarrow> bool" where
  "groupNamesDistinct c = (case ServerGroups c of Inl err \<Rightarrow> True | Inr groups \<Rightarrow> distinct groups)"


text \<open>A cluster with the given API groups and \<open>kube-system\<close> config maps, and one plain master node.\<close>

definition exampleCluster :: "string list \<Rightarrow> string list \<Rightarrow> unit clientset" where
  "exampleCluster groups configMaps =
     \<lparr> ServerGroups = Inr groups,
       MasterNodes = Inr [[''node-role.kubernetes.io/master'', ''kubernetes.io/os'']],
       ConfigMaps = (\<lambda>ns name. if ns = ''kube-system'' \<and> name \<in> set configMaps
                                 then Got (Some ()) else NotFound ''not found'') \<rparr>"

section \<open>Rendered components (render/logstorage.go, render/fluentd.go)\<close>

text \<open>
  The Kubernetes objects the renderers handle. A secret's \<open>Data\<close> is a Go map, \<open>None\<close> when
  nil; the custom resources read back from the cluster carry a deletion timestamp when they
  are being deleted.
\<close>

record Secret =
  secret_Name :: string
  secret_Namespace :: string
  secret_Data :: "(string \<rightharpoonup> string) option"

record CustomResource =
  cr_Name :: string
  cr_DeletionTimestamp :: "string option"

record Service =
  svc_Name :: string
  svc_Type :: string

datatype FIPSMode = FIPSModeEnabled | FIPSModeDisabled

definition IsFIPSModeEnabled :: "FIPSMode option \<Rightarrow> bool" where
  "IsFIPSModeEnabled mode = (mode = Some FIPSModeEnabled)"

datatype PodSecurityStandard = PSSPrivileged | PSSBaseline | PSSRestricted

record CertificateManagement =
  cm_CACert :: string

record InstallationSpec =
  inst_KubernetesProvider :: Provider
  inst_FIPSMode :: "FIPSMode option"
  inst_CertificateManagement :: "CertificateManagement option"

text \<open>\<open>certificatemanagement.KeyPairInterface\<close>, by the two methods \<open>Objects\<close> calls.\<close>

record KeyPair =
  kp_UseCertificateManagement :: bool
  kp_Secret :: "string \<Rightarrow> Secret"

text \<open>\<open>operatorv1.Nodes\<close>: the count and node sets above, and the user's resource requirements.\<close>

record LogStorageNodes = NodesConfig +
  nodes_ResourceRequirements :: "ResourceRequirements option"

record LogStorage =
  ls_DeletionTimestamp :: "string option"
  ls_Nodes :: "LogStorageNodes option"

text \<open>
  \<open>ElasticsearchConfiguration\<close>. Pointer fields are options. \<open>Installation\<close> and
  \<open>ElasticsearchKeyPair\<close> are dereferenced on every path that renders and are taken to be
  present. \<open>cfg_Other\<close> stands for the fields only the renderers read (\<open>ManagementCluster\<close>,
  \<open>ClusterConfig\<close>, \<open>ClusterDomain\<close>, \<open>BaseURL\<close>, \<open>ElasticLicenseType\<close>, \<open>TrustedBundle\<close>).
\<close>

record 'x ElasticsearchConfiguration =
  cfg_LogStorage :: "LogStorage option"
  cfg_Installation :: InstallationSpec
  cfg_ManagementClusterConnection :: "string option"
  cfg_Elasticsearch :: "CustomResource option"
  cfg_Kibana :: "CustomResource option"
  cfg_ElasticsearchUserSecret :: "Secret option"
  cfg_ElasticsearchKeyPair :: KeyPair
  cfg_KibanaKeyPair :: "KeyPair option"
  cfg_PullSecrets :: "Secret list"
  cfg_Provider :: Provider
  cfg_CuratorSecrets :: "Secret list"
  cfg_ESService :: "Service option"
  cfg_KbService :: "Service option"
  cfg_UnusedTLSSecret :: "Secret option"
  cfg_ApplyTrial :: bool
  cfg_KeyStoreSecret :: "Secret option"
  cfg_UsePSP :: bool
  cfg_Other :: 'x

text \<open>
  The component holds a pointer to its configuration: a method that writes through it changes
  the configuration for the caller too, so \<open>Objects\<close> returns the component it leaves behind.
\<close>

record 'x elasticsearchComponent =
  es_cfg :: "'x ElasticsearchConfiguration"
  es_kibanaSecrets :: "Secret list"
  es_esImage :: string
  es_esOperatorImage :: string
  es_kibanaImage :: string
  es_curatorImage :: string
  es_csrImage :: string

definition LogStorage :: "'x ElasticsearchConfiguration \<Rightarrow> 'x elasticsearchComponent" where
  "LogStorage cfg =
     \<lparr> es_cfg = cfg, es_kibanaSecrets = [], es_esImage = [], es_esOperatorImage = [],
       es_kibanaImage = [], es_curatorImage = [], es_csrImage = [] \<rparr>"

text \<open>
  The methods of the component that build one object each from the component. They are a
  parameter of \<open>Objects\<close>: a function from the method's name and the component at the moment
  of the call to the object built.
\<close>

datatype renderer =
    eckOperatorAllowTigeraPolicy | eckOperatorClusterRole | eckOperatorClusterRoleBinding
  | eckOperatorServiceAccount | eckOperatorClusterAdminClusterRoleBinding
  | elasticsearchClusterRoleBinding | elasticsearchClusterRole
  | eckOperatorPodSecurityPolicy | elasticsearchPodSecurityPolicy
  | kibanaClusterRoleBinding | kibanaClusterRole | kibanaPodSecurityPolicy
  | elasticEnterpriseTrial | eckOperatorStatefulSet
  | elasticsearchAllowTigeraPolicy | elasticsearchInternalAllowTigeraPolicy
  | elasticsearchServiceAccount | clusterConfigConfigMap | elasticsearchCluster
  | kibanaAllowTigeraPolicy | kibanaServiceAccount | kibanaCR
  | esCuratorAllowTigeraPolicy | esCuratorServiceAccount
  | curatorClusterRole | curatorClusterRoleBinding | curatorPodSecurityPolicy | curatorCronJob
  | oidcUserRole | oidcUserRoleBinding | elasticsearchExternalService

datatype 'o Object =
    Rendered 'o
  | NamespaceObject string Provider PodSecurityStandard
  | DefaultDenyPolicy string
  | SecretObject "Secret option"
  | ElasticsearchObject CustomResource
  | KibanaObject CustomResource
  | ServiceObject Service

definition ECKOperatorNamespace :: string where
  "ECKOperatorNamespace = ''tigera-eck-operator''"

definition ElasticsearchNamespace :: string where
  "ElasticsearchNamespace = ''tigera-elasticsearch''"

definition KibanaNamespace :: string where
  "KibanaNamespace = ''tigera-kibana''"

definition ElasticsearchKeystoreEnvName :: string where
  "ElasticsearchKeystoreEnvName = ''KEYSTORE_PASSWORD''"

text \<open>\<open>secret.ToRuntimeObjects(secret.CopyToNamespace(ns, secrets...)...)\<close>, with the copy a parameter.\<close>

definition copySecrets :: "(string \<Rightarrow> Secret \<Rightarrow> Secret) \<Rightarrow> string \<Rightarrow> Secret list \<Rightarrow> 'o Object list" where
  "copySecrets CopyToNamespace ns secrets = map (\<lambda>s. SecretObject (Some (CopyToNamespace ns s))) secrets"

text \<open>Reading a key of a secret's data as \<open>%s\<close> prints it: nothing for a nil map or a missing key.\<close>

definition secretDataString :: "Secret \<Rightarrow> string \<Rightarrow> string" where
  "secretDataString s key =
     (case secret_Data s of None \<Rightarrow> [] | Some m \<Rightarrow> (case m key of None \<Rightarrow> [] | Some v \<Rightarrow> v))"

definition resourceRequirements :: "'x elasticsearchComponent \<Rightarrow> panic + ResourceRequirements" where
  "resourceRequirements es =
     (let resources = defaultResources
      in case cfg_LogStorage (es_cfg es) of
           None \<Rightarrow> Inl NilPointerDereference
         | Some logStorage \<Rightarrow>
             (case ls_Nodes logStorage of
                None \<Rightarrow> Inr resources
              | Some nodes \<Rightarrow>
                  (case nodes_ResourceRequirements nodes of
                     None \<Rightarrow> Inr resources
                   | Some userOverrides \<Rightarrow> overrideResourceRequirements resources userOverrides)))"

definition javaOpts :: "'x elasticsearchComponent \<Rightarrow> panic + string" where
  "javaOpts es =
     andThen (resourceRequirements es) (\<lambda>resources.
       case cfg_LogStorage (es_cfg es) of
         None \<Rightarrow> Inl NilPointerDereference
       | Some logStorage \<Rightarrow>
           (let javaOpts =
                  (if ls_Nodes logStorage \<noteq> None \<and>
                      nodes_ResourceRequirements (the (ls_Nodes logStorage)) \<noteq> None
                   then (let recommendedHeapSize =
                               memoryQuantityToJVMHeapSize (Memory (Requests resources))
                         in ''-Xms'' @ recommendedHeapSize @ '' -Xmx'' @ recommendedHeapSize)
                   else ''-Xms2G -Xmx2G'')
            in if IsFIPSModeEnabled (inst_FIPSMode (cfg_Installation (es_cfg es)))
               then (case cfg_KeyStoreSecret (es_cfg es) of
                       None \<Rightarrow> Inl NilPointerDereference
                     | Some keyStoreSecret \<Rightarrow>
                         Inr (javaOpts @ '' --module-path /usr/share/bc-fips/ '' @
                              ''-Djavax.net.ssl.trustStore=/usr/share/elasticsearch/config/cacerts.bcfks '' @
                              ''-Djavax.net.ssl.trustStoreType=BCFKS '' @
                              ''-Djavax.net.ssl.trustStorePassword='' @
                              secretDataString keyStoreSecret ElasticsearchKeystoreEnvName @
                              '' -Dorg.bouncycastle.fips.approved_only=true''))
               else Inr javaOpts))"

text \<open>
  \<open>Objects\<close> of the Elasticsearch component, in four parts: the early return when the
  LogStorage is being deleted, the branch without a management cluster connection, the branch
  with one, and the closing part on certificate management. Each part returns the objects to
  create, the objects to delete and the component as it leaves it, or the panic it ends in.
\<close>

type_synonym ('x, 'o) rendering = "'o Object list \<times> 'o Object list \<times> 'x elasticsearchComponent"

definition objectsFinalizeDeletion :: "'x elasticsearchComponent \<Rightarrow> ('x, 'o) rendering" where
  "objectsFinalizeDeletion es =
     (let toDelete = [];
          toDelete = (case cfg_Elasticsearch (es_cfg es) of
                        None \<Rightarrow> toDelete
                      | Some elasticsearch \<Rightarrow>
                          if cr_DeletionTimestamp elasticsearch = None
                          then toDelete @ [ElasticsearchObject elasticsearch] else toDelete);
          toDelete = (case cfg_Kibana (es_cfg es) of
                        None \<Rightarrow> toDelete
                      | Some kibana \<Rightarrow>
                          if cr_DeletionTimestamp kibana = None
                          then toDelete @ [KibanaObject kibana] else toDelete)
      in ([], toDelete, es))"

text \<open>
  The FIPS branch of the standalone rendering: it stores the Java options in the key store
  secret of the configuration before it appends that secret.
\<close>

definition objectsKeyStore ::
  "(renderer \<Rightarrow> 'x elasticsearchComponent \<Rightarrow> 'o) \<Rightarrow> (string \<Rightarrow> Secret \<Rightarrow> Secret) \<Rightarrow>
   ('x, 'o) rendering \<Rightarrow> panic + ('x, 'o) rendering" where
  "objectsKeyStore render CopyToNamespace r =
     (case r of (toCreate, toDelete, es) \<Rightarrow>
        andThen
          (case cfg_KeyStoreSecret (es_cfg es) of
             None \<Rightarrow> Inr (toCreate, es)
           | Some keyStoreSecret \<Rightarrow>
               andThen
                 (if IsFIPSModeEnabled (inst_FIPSMode (cfg_Installation (es_cfg es)))
                  then andThen (javaOpts es) (\<lambda>opts.
                         case secret_Data keyStoreSecret of
                           None \<Rightarrow> Inl NilMapAssignment
                         | Some data \<Rightarrow>
                             Inr (keyStoreSecret\<lparr> secret_Data := Some (data(''ES_JAVA_OPTS'' \<mapsto> opts)) \<rparr>))
                  else Inr keyStoreSecret)
                 (\<lambda>keyStoreSecret.
                    Inr (toCreate @ [SecretObject (Some keyStoreSecret)]
                           @ copySecrets CopyToNamespace ElasticsearchNamespace [keyStoreSecret],
                         es\<lparr> es_cfg := (es_cfg es)\<lparr> cfg_KeyStoreSecret := Some keyStoreSecret \<rparr> \<rparr>)))
          (\<lambda>(toCreate, es).
             Inr (toCreate,
                  toDelete @ [Rendered (render kibanaCR es), Rendered (render curatorCronJob es)],
                  es)))"

definition objectsKibanaCurator ::
  "(renderer \<Rightarrow> 'x elasticsearchComponent \<Rightarrow> 'o) \<Rightarrow> (string \<Rightarrow> Secret \<Rightarrow> Secret) \<Rightarrow>
   'x elasticsearchComponent \<Rightarrow> 'o Object list" where
  "objectsKibanaCurator render CopyToNamespace es =
     [NamespaceObject KibanaNamespace (inst_KubernetesProvider (cfg_Installation (es_cfg es))) PSSBaseline,
      Rendered (render kibanaAllowTigeraPolicy es),
      DefaultDenyPolicy KibanaNamespace,
      Rendered (render kibanaServiceAccount es)]
     @ (if length (cfg_PullSecrets (es_cfg es)) > 0
        then copySecrets CopyToNamespace KibanaNamespace (cfg_PullSecrets (es_cfg es)) else [])
     @ (if length (es_kibanaSecrets es) > 0
        then map (\<lambda>s. SecretObject (Some s)) (es_kibanaSecrets es) else [])
     @ [Rendered (render kibanaCR es)]
     @ (if length (cfg_CuratorSecrets (es_cfg es)) > 0
        then [Rendered (render esCuratorAllowTigeraPolicy es)]
             @ copySecrets CopyToNamespace ElasticsearchNamespace (cfg_CuratorSecrets (es_cfg es))
             @ [Rendered (render esCuratorServiceAccount es)]
             @ (if cfg_Provider (es_cfg es) \<noteq> ProviderOpenShift
                then [Rendered (render curatorClusterRole es),
                      Rendered (render curatorClusterRoleBinding es)]
                     @ (if cfg_UsePSP (es_cfg es)
                        then [Rendered (render curatorPodSecurityPolicy es)] else [])
                else [])
             @ [Rendered (render curatorCronJob es)]
        else [])"

definition objectsECKAndElasticsearch ::
  "(renderer \<Rightarrow> 'x elasticsearchComponent \<Rightarrow> 'o) \<Rightarrow> (string \<Rightarrow> Secret \<Rightarrow> Secret) \<Rightarrow>
   'x elasticsearchComponent \<Rightarrow> 'o Object list" where
  "objectsECKAndElasticsearch render CopyToNamespace es =
     (let fips = IsFIPSModeEnabled (inst_FIPSMode (cfg_Installation (es_cfg es)));
          provider = inst_KubernetesProvider (cfg_Installation (es_cfg es))
      in [NamespaceObject ECKOperatorNamespace provider PSSBaseline,
          Rendered (render eckOperatorAllowTigeraPolicy es)]
         @ copySecrets CopyToNamespace ECKOperatorNamespace (cfg_PullSecrets (es_cfg es))
         @ [Rendered (render eckOperatorClusterRole es),
            Rendered (render eckOperatorClusterRoleBinding es),
            Rendered (render eckOperatorServiceAccount es)]
         @ (if cfg_Provider (es_cfg es) = ProviderDockerEE
            then [Rendered (render eckOperatorClusterAdminClusterRoleBinding es)] else [])
         @ (if cfg_Provider (es_cfg es) \<noteq> ProviderOpenShift
            then [Rendered (render elasticsearchClusterRoleBinding es),
                  Rendered (render elasticsearchClusterRole es)]
                 @ (if cfg_UsePSP (es_cfg es)
                    then [Rendered (render eckOperatorPodSecurityPolicy es),
                          Rendered (render elasticsearchPodSecurityPolicy es)] else [])
                 @ (if \<not> fips
                    then [Rendered (render kibanaClusterRoleBinding es),
                          Rendered (render kibanaClusterRole es),
                          Rendered (render kibanaPodSecurityPolicy es)] else [])
            else [])
         @ (if cfg_ApplyTrial (es_cfg es) then [Rendered (render elasticEnterpriseTrial es)] else [])
         @ [Rendered (render eckOperatorStatefulSet es),
            NamespaceObject ElasticsearchNamespace provider PSSPrivileged,
            Rendered (render elasticsearchAllowTigeraPolicy es),
            Rendered (render elasticsearchInternalAllowTigeraPolicy es),
            DefaultDenyPolicy ElasticsearchNamespace]
         @ (if length (cfg_PullSecrets (es_cfg es)) > 0
            then copySecrets CopyToNamespace ElasticsearchNamespace (cfg_PullSecrets (es_cfg es)) else [])
         @ (case cfg_ElasticsearchUserSecret (es_cfg es) of
              None \<Rightarrow> [] | Some s \<Rightarrow> [SecretObject (Some s)])
         @ [Rendered (render elasticsearchServiceAccount es),
            Rendered (render clusterConfigConfigMap es),
            Rendered (render elasticsearchCluster es)])"

definition ServiceTypeExternalName :: string where
  "ServiceTypeExternalName = ''ExternalName''"

text \<open>
  The branch without a management cluster connection. \<open>eckOperatorStatefulSet\<close> and
  \<open>elasticsearchCluster\<close> dereference the LogStorage, so a nil LogStorage panics here.
\<close>

definition objectsStandalone ::
  "(renderer \<Rightarrow> 'x elasticsearchComponent \<Rightarrow> 'o) \<Rightarrow> (string \<Rightarrow> Secret \<Rightarrow> Secret) \<Rightarrow>
   'x elasticsearchComponent \<Rightarrow> panic + ('x, 'o) rendering" where
  "objectsStandalone render CopyToNamespace es =
     (case cfg_LogStorage (es_cfg es) of
        None \<Rightarrow> Inl NilPointerDereference
      | Some _ \<Rightarrow>
          (let toCreate = objectsECKAndElasticsearch render CopyToNamespace es
           in andThen
                (if \<not> IsFIPSModeEnabled (inst_FIPSMode (cfg_Installation (es_cfg es)))
                 then Inr (toCreate @ objectsKibanaCurator render CopyToNamespace es, [], es)
                 else objectsKeyStore render CopyToNamespace (toCreate, [], es))
                (\<lambda>(toCreate, toDelete, es).
                   let toCreate = toCreate @ [Rendered (render oidcUserRole es),
                                              Rendered (render oidcUserRoleBinding es)];
                       toDelete = (case cfg_ESService (es_cfg es) of
                                     None \<Rightarrow> toDelete
                                   | Some svc \<Rightarrow>
                                       if svc_Type svc = ServiceTypeExternalName
                                       then toDelete @ [ServiceObject svc] else toDelete);
                       toDelete = (case cfg_KbService (es_cfg es) of
                                     None \<Rightarrow> toDelete
                                   | Some svc \<Rightarrow>
                                       if svc_Type svc = ServiceTypeExternalName
                                       then toDelete @ [ServiceObject svc] else toDelete)
                   in Inr (toCreate, toDelete, es))))"

definition objectsManaged ::
  "(renderer \<Rightarrow> 'x elasticsearchComponent \<Rightarrow> 'o) \<Rightarrow> 'x elasticsearchComponent \<Rightarrow> ('x, 'o) rendering" where
  "objectsManaged render es =
     ([NamespaceObject ElasticsearchNamespace
         (inst_KubernetesProvider (cfg_Installation (es_cfg es))) PSSPrivileged,
       Rendered (render elasticsearchExternalService es)], [], es)"

text \<open>
  The closing part. The unused TLS secret is appended as it is, nil or not; copying its data
  into a key pair's secret dereferences it.
\<close>

definition unusedSecretFor :: "KeyPair \<Rightarrow> string \<Rightarrow> Secret option \<Rightarrow> panic + Secret" where
  "unusedSecretFor keyPair ns unusedTLSSecret =
     (let unusedSecret = kp_Secret keyPair ns
      in case unusedTLSSecret of
           None \<Rightarrow> Inl NilPointerDereference
         | Some tls \<Rightarrow> Inr (unusedSecret\<lparr> secret_Data := secret_Data tls \<rparr>))"

definition objectsCertificateManagement :: "('x, 'o) rendering \<Rightarrow> panic + ('x, 'o) rendering" where
  "objectsCertificateManagement r =
     (case r of (toCreate, toDelete, es) \<Rightarrow>
        if inst_CertificateManagement (cfg_Installation (es_cfg es)) \<noteq> None
        then (let toCreate = toCreate @ [SecretObject (cfg_UnusedTLSSecret (es_cfg es))]
              in andThen
                   (if kp_UseCertificateManagement (cfg_ElasticsearchKeyPair (es_cfg es))
                    then andThen
                           (unusedSecretFor (cfg_ElasticsearchKeyPair (es_cfg es))
                              ElasticsearchNamespace (cfg_UnusedTLSSecret (es_cfg es)))
                           (\<lambda>unusedSecret. Inr (toCreate @ [SecretObject (Some unusedSecret)]))
                    else Inr toCreate)
                   (\<lambda>toCreate.
                      andThen
                        (case cfg_KibanaKeyPair (es_cfg es) of
                           None \<Rightarrow> Inr toCreate
                         | Some kibanaKeyPair \<Rightarrow>
                             if kp_UseCertificateManagement kibanaKeyPair
                             then andThen
                                    (unusedSecretFor kibanaKeyPair KibanaNamespace
                                       (cfg_UnusedTLSSecret (es_cfg es)))
                                    (\<lambda>unusedSecret. Inr (toCreate @ [SecretObject (Some unusedSecret)]))
                             else Inr toCreate)
                        (\<lambda>toCreate. Inr (toCreate, toDelete, es))))
        else if cfg_UnusedTLSSecret (es_cfg es) \<noteq> None
        then Inr (toCreate, toDelete @ [SecretObject (cfg_UnusedTLSSecret (es_cfg es))], es)
        else Inr (toCreate, toDelete, es))"

definition Objects ::
  "(renderer \<Rightarrow> 'x elasticsearchComponent \<Rightarrow> 'o) \<Rightarrow> (string \<Rightarrow> Secret \<Rightarrow> Secret) \<Rightarrow>
   'x elasticsearchComponent \<Rightarrow> panic + ('x, 'o) rendering" where
  "Objects render CopyToNamespace es =
     (if (case cfg_LogStorage (es_cfg es) of
            None \<Rightarrow> False
          | Some logStorage \<Rightarrow> ls_DeletionTimestamp logStorage \<noteq> None)
      then Inr (objectsFinalizeDeletion es)
      else andThen
             (if cfg_ManagementClusterConnection (es_cfg es) = None
              then objectsStandalone render CopyToNamespace es
              else Inr (objectsManaged render es))
             objectsCertificateManagement)"


definition exampleKeyPair :: KeyPair where
  "exampleKeyPair =
     \<lparr> kp_UseCertificateManagement = False,
       kp_Secret = (\<lambda>ns. \<lparr> secret_Name = ''tigera-secure-elasticsearch-cert'',
                           secret_Namespace = ns, secret_Data = Some Map.empty \<rparr>) \<rparr>"

definition exampleConfiguration ::
  "LogStorage option \<Rightarrow> FIPSMode option \<Rightarrow> Secret option \<Rightarrow> unit ElasticsearchConfiguration" where
  "exampleConfiguration logStorage fips keyStoreSecret =
     \<lparr> cfg_LogStorage = logStorage,
       cfg_Installation = \<lparr> inst_KubernetesProvider = ProviderNone, inst_FIPSMode = fips,
                            inst_CertificateManagement = None \<rparr>,
       cfg_ManagementClusterConnection = None,
       cfg_Elasticsearch = Some \<lparr> cr_Name = ''tigera-secure'', cr_DeletionTimestamp = None \<rparr>,
       cfg_Kibana = Some \<lparr> cr_Name = ''tigera-secure'',
                             cr_DeletionTimestamp = Some ''2022-09-01T00:00:00Z'' \<rparr>,
       cfg_ElasticsearchUserSecret = None,
       cfg_ElasticsearchKeyPair = exampleKeyPair,
       cfg_KibanaKeyPair = None,
       cfg_PullSecrets = [],
       cfg_Provider = ProviderNone,
       cfg_CuratorSecrets = [],
       cfg_ESService = None,
       cfg_KbService = None,
       cfg_UnusedTLSSecret = None,
       cfg_ApplyTrial = False,
       cfg_KeyStoreSecret = keyStoreSecret,
       cfg_UsePSP = False,
       cfg_Other = () \<rparr>"


definition exampleLogStorage :: "string option \<Rightarrow> LogStorage" where
  "exampleLogStorage deletionTimestamp = \<lparr> ls_DeletionTimestamp = deletionTimestamp, ls_Nodes = None \<rparr>"


definition renderName :: "renderer \<Rightarrow> unit elasticsearchComponent \<Rightarrow> renderer" where
  "renderName r es = r"

definition copyToNamespace :: "string \<Rightarrow> Secret \<Rightarrow> Secret" where
  "copyToNamespace ns s = s\<lparr> secret_Namespace := ns \<rparr>"


text \<open>The fluentd component (render/fluentd.go).\<close>

datatype OSType = OSTypeAny | OSTypeLinux | OSTypeWindows

record FluentdFilters =
  filters_Flow :: string
  filters_DNS :: string



record EksCloudwatchLogConfig =
  eks_AwsId :: string
  eks_AwsKey :: string
  eks_AwsRegion :: string
  eks_GroupName :: string
  eks_StreamPrefix :: string
  eks_FetchInterval :: "32 word"










definition deletingComponent :: "unit elasticsearchComponent" where
  "deletingComponent =
     LogStorage (exampleConfiguration (Some (exampleLogStorage (Some ''2022-09-01T00:00:00Z'')))
                   None None)"


section \<open>Properties\<close>

subsection \<open>Node set distribution\<close>

lemma nodeSetsLoop_counts:
  "map ns_Count (nodeSetsLoop es c l i cfgs acc) =
     map ns_Count acc @
     map (\<lambda>j. to_int32 (numNodes c l j))
       (takeWhile (\<lambda>j. 1 \<le> numNodes c l j) [i ..< i + length cfgs])"
proof (induction cfgs arbitrary: i acc)
  case Nil
  then show ?case by simp
next
  case (Cons cfg cfgs)
  have upt: "[i ..< i + length (cfg # cfgs)] = i # [Suc i ..< Suc i + length cfgs]"
    by (simp add: upt_rec [of i] Suc_le_eq)
  show ?case
  proof (cases "numNodes c l i < 1")
    case True
    then show ?thesis unfolding upt by simp
  next
    case False
    then show ?thesis unfolding upt
      by (simp add: Cons.IH Let_def buildNodeSet_def split: option.splits prod.splits)
  qed
qed


lemma go_quo_nonneg: "0 \<le> a \<Longrightarrow> 0 < b \<Longrightarrow> go_quo a b = a div b"
  by (simp add: go_quo_def)

lemma go_rem_nonneg: "0 \<le> a \<Longrightarrow> 0 < b \<Longrightarrow> go_rem a b = a mod b"
  by (simp add: go_rem_def go_quo_nonneg minus_mult_div_eq_mod)

lemma sint_to_int64: "- 9223372036854775808 \<le> x \<Longrightarrow> x < 9223372036854775808 \<Longrightarrow> sint (to_int64 x) = x"
  by (simp add: to_int64_def sint_sbintrunc' signed_take_bit_int_eq_self)

lemma sint_to_int32: "- 2147483648 \<le> x \<Longrightarrow> x < 2147483648 \<Longrightarrow> sint (to_int32 x) = x"
  by (simp add: to_int32_def sint_sbintrunc' signed_take_bit_int_eq_self)

lemma div_le_bound: 
  fixes c l :: int
  assumes "0 \<le> c" "0 < l" "c \<le> l * m"
  shows "c div l \<le> m"
proof -
  have "c div l \<le> (l * m) div l" using assms by (intro zdiv_mono1) auto
  then show ?thesis using assms by simp
qed

lemma numNodes_nonneg:
  assumes "0 \<le> c" "0 < l" "c \<le> l * 2147483647"
  shows "numNodes c l i = c div l + (if int i < c mod l then 1 else 0)"
proof -
  have "c div l \<le> 2147483647" using assms by (rule div_le_bound)
  moreover have "0 \<le> c div l" using assms by (simp add: pos_imp_zdiv_nonneg_iff)
  ultimately have "sint (to_int64 (c div l + 1)) = c div l + 1"
    by (intro sint_to_int64) auto
  then show ?thesis using assms by (simp add: numNodes_def go_quo_nonneg go_rem_nonneg)
qed

lemma takeWhile_less_upt: "takeWhile (\<lambda>j. j < m) [0 ..< n] = [0 ..< min m n]"
proof -
  let ?k = "min m n"
  have split: "[0 ..< n] = [0 ..< ?k] @ [?k ..< n]"
    using upt_add_eq_append [of 0 ?k "n - ?k"] by simp
  have rest: "takeWhile (\<lambda>j. j < m) [?k ..< n] = []"
    by (cases "m < n") (simp_all add: upt_rec [of m n] min_def)
  have "takeWhile (\<lambda>j. j < m) ([0 ..< ?k] @ [?k ..< n]) = [0 ..< ?k] @ takeWhile (\<lambda>j. j < m) [?k ..< n]"
    by (rule takeWhile_append2) simp
  then show ?thesis using split rest by simp
qed

lemma sum_list_indicator_upt:
  "sum_list (map (\<lambda>j. q + (if j < r then 1 else 0 :: int)) [0 ..< n]) = int n * q + int (min r n)"
  by (induction n) (auto simp: algebra_simps min_def)

lemma numNodes_le_int32:
  assumes "0 \<le> c" "0 < l" "c \<le> l * 2147483647"
  shows "c div l + (if int i < c mod l then 1 else 0) \<le> 2147483647"
proof (cases "int i < c mod l")
  case False
  then show ?thesis using div_le_bound [OF assms] by simp
next
  case True
  then have pos: "0 < c mod l" by linarith
  have "c div l < 2147483647"
  proof (rule ccontr)
    assume "\<not> c div l < 2147483647"
    then have "2147483647 \<le> c div l" by simp
    then have "l * 2147483647 \<le> l * (c div l)" using assms(2) by simp
    moreover have "c = l * (c div l) + c mod l" by simp
    ultimately have "l * 2147483647 < c" using pos by linarith
    then show False using assms(3) by simp
  qed
  then show ?thesis using True by simp
qed

lemma nodeSets_counts:
  fixes es :: "('pvc, 'pt) nodeSetsInput"
  assumes nodes: "in_Nodes es = Some nodeConfig"
    and nonempty: "nodes_NodeSets nodeConfig \<noteq> []"
    and N: "N = sint (nodes_Count nodeConfig)"
    and K: "K = int (length (nodes_NodeSets nodeConfig))"
    and range: "0 \<le> N" "N \<le> K * 2147483647"
  shows "\<exists>r. nodeSets es = Some r \<and>
           map (\<lambda>ns. sint (ns_Count ns)) r =
             map (\<lambda>j. N div K + (if int j < N mod K then 1 else 0)) [0 ..< nat (min K N)]"
proof -
  let ?n = "length (nodes_NodeSets nodeConfig)"
  let ?f = "\<lambda>j. N div K + (if int j < N mod K then 1 else 0)"
  have Kpos: "0 < K" using nonempty K by simp
  have num: "numNodes N K j = ?f j" for j
    using range(1) Kpos range(2) by (rule numNodes_nonneg)
  have fge: "0 \<le> ?f j" for j
    using range Kpos by (simp add: pos_imp_zdiv_nonneg_iff)
  have fle: "?f j \<le> 2147483647" for j
    using range(1) Kpos range(2) by (rule numNodes_le_int32)
  have conv: "sint (to_int32 (?f j)) = ?f j" for j
    using fge [of j] fle [of j] by (intro sint_to_int32) linarith+
  define r where "r = nodeSetsLoop es N K 0 (nodes_NodeSets nodeConfig) []"
  have res: "nodeSets es = Some r"
    using nodes nonempty by (simp add: nodeSets_def r_def N K Suc_le_eq)
  have tw: "takeWhile (\<lambda>j. 1 \<le> numNodes N K j) [0 ..< ?n] = [0 ..< nat (min K N)]"
  proof (cases "K \<le> N")
    case True
    then have "0 < N div K" using Kpos by (simp add: pos_imp_zdiv_pos_iff)
    then have "1 \<le> N div K" by simp
    then have "1 \<le> numNodes N K j" for j by (simp add: num)
    then have "takeWhile (\<lambda>j. 1 \<le> numNodes N K j) [0 ..< ?n] = [0 ..< ?n]" by simp
    then show ?thesis using True K by (simp add: min_def)
  next
    case False
    then have small: "N div K = 0" "N mod K = N" using range(1) by (simp_all add: div_pos_pos_trivial)
    have "(1 \<le> numNodes N K j) = (j < nat N)" for j
      using range(1) by (simp add: num small) linarith
    then have "takeWhile (\<lambda>j. 1 \<le> numNodes N K j) [0 ..< ?n] = [0 ..< min (nat N) ?n]"
      by (simp add: takeWhile_less_upt)
    then show ?thesis using False K range(1) by (simp add: min_def)
  qed
  have "map ns_Count r = map (\<lambda>j. to_int32 (numNodes N K j)) [0 ..< nat (min K N)]"
    unfolding r_def using nodeSetsLoop_counts [of es N K 0 "nodes_NodeSets nodeConfig" "[]"] tw by simp
  then have "map sint (map ns_Count r) = map sint (map (\<lambda>j. to_int32 (numNodes N K j)) [0 ..< nat (min K N)])"
    by simp
  then have "map (\<lambda>ns. sint (ns_Count ns)) r = map ?f [0 ..< nat (min K N)]"
    by (simp add: num conv comp_def)
  then show ?thesis using res by blast
qed

text \<open>
  C1, as amended. When \<open>Spec.Nodes\<close> has a non-empty node set list of length \<open>K\<close> and a node
  count \<open>N\<close> with \<open>0 \<le> N \<le> K * 2147483647\<close>, \<open>nodeSets\<close> returns \<open>min K N\<close> node sets
  whose \<open>Count\<close> fields sum to \<open>N\<close>; the node set at index \<open>i\<close> has \<open>N div K + 1\<close> nodes when
  \<open>i < N mod K\<close> and \<open>N div K\<close> nodes otherwise, and every returned node set has at least one
  node.
\<close>

theorem nodeSets_even_distribution:
  fixes es :: "('pvc, 'pt) nodeSetsInput"
  assumes nodes: "in_Nodes es = Some nodeConfig"
    and nonempty: "nodes_NodeSets nodeConfig \<noteq> []"
    and N: "N = sint (nodes_Count nodeConfig)"
    and K: "K = int (length (nodes_NodeSets nodeConfig))"
    and range: "0 \<le> N" "N \<le> K * 2147483647"
  shows "\<exists>r. nodeSets es = Some r
           \<and> (\<Sum>ns\<leftarrow>r. sint (ns_Count ns)) = N
           \<and> int (length r) = min K N
           \<and> (\<forall>i<length r. sint (ns_Count (r ! i)) =
                  (if int i < N mod K then N div K + 1 else N div K))
           \<and> (\<forall>ns\<in>set r. 1 \<le> sint (ns_Count ns))"
proof -
  let ?f = "\<lambda>j. N div K + (if int j < N mod K then 1 else 0)"
  let ?m = "nat (min K N)"
  obtain r where res: "nodeSets es = Some r"
    and counts: "map (\<lambda>ns. sint (ns_Count ns)) r = map ?f [0 ..< ?m]"
    using nodeSets_counts [OF nodes nonempty N K range] by blast
  have Kpos: "0 < K" using nonempty K by simp
  have len: "length r = ?m"
    using arg_cong [OF counts, of length] by simp
  have nth: "sint (ns_Count (r ! i)) = ?f i" if "i < length r" for i
  proof -
    have "map (\<lambda>ns. sint (ns_Count ns)) r ! i = map ?f [0 ..< ?m] ! i" using counts by simp
    then show ?thesis using that len by simp
  qed
  have total: "(\<Sum>ns\<leftarrow>r. sint (ns_Count ns)) = N"
  proof -
    have "(\<Sum>ns\<leftarrow>r. sint (ns_Count ns)) = sum_list (map ?f [0 ..< ?m])"
      using counts by simp
    also have "\<dots> = sum_list (map (\<lambda>j. N div K + (if j < nat (N mod K) then 1 else 0)) [0 ..< ?m])"
      using Kpos by (intro arg_cong [where f = sum_list] map_cong refl) auto
    also have "\<dots> = int ?m * (N div K) + int (min (nat (N mod K)) ?m)"
      by (rule sum_list_indicator_upt)
    also have "\<dots> = N"
    proof (cases "K \<le> N")
      case True
      then have "?m = nat K" by (simp add: min_def)
      moreover have "nat (N mod K) \<le> nat K"
        using Kpos by (intro nat_mono less_imp_le pos_mod_bound)
      moreover have "0 \<le> N mod K" using Kpos by simp
      ultimately show ?thesis using Kpos by (simp add: min_def)
    next
      case False
      then have "N div K = 0" "N mod K = N" using range(1) by (simp_all add: div_pos_pos_trivial)
      then show ?thesis using False range(1) by (simp add: min_def)
    qed
    finally show ?thesis .
  qed
  have ge1: "1 \<le> sint (ns_Count ns)" if mem: "ns \<in> set r" for ns
  proof -
    obtain i where i: "i < length r" "r ! i = ns" using mem unfolding in_set_conv_nth by blast
    show ?thesis
    proof (cases "K \<le> N")
      case True
      then have "0 < N div K" using Kpos by (simp add: pos_imp_zdiv_pos_iff)
      then show ?thesis using nth [OF i(1)] i(2) by simp
    next
      case False
      then have "N mod K = N" using range(1) by (simp add: div_pos_pos_trivial)
      moreover have "int i < N" using i(1) len False by (simp add: min_def)
      ultimately show ?thesis using nth [OF i(1)] i(2) range(1) Kpos
        by (simp add: pos_imp_zdiv_nonneg_iff)
    qed
  qed
  have "int (length r) = min K N" using len range(1) Kpos by simp
  moreover have "\<forall>i<length r. sint (ns_Count (r ! i)) =
                  (if int i < N mod K then N div K + 1 else N div K)"
    using nth by simp
  ultimately show ?thesis using res total ge1 by blast
qed

theorem nodeSets_even_distribution_witness:
  "sum_list (map sint (map ns_Count (the (nodeSets (exampleNodeSetsInput 7 3))))) = 7
   \<and> length (the (nodeSets (exampleNodeSetsInput 7 3))) = 3
   \<and> sint (ns_Count (the (nodeSets (exampleNodeSetsInput 7 3)) ! 0)) = 3
   \<and> sint (ns_Count (the (nodeSets (exampleNodeSetsInput 7 3)) ! 1)) = 2
   \<and> sint (ns_Count (the (nodeSets (exampleNodeSetsInput 7 3)) ! 2)) = 2"
proof -
  let ?nc = "\<lparr> nodes_Count = word_of_int 7,
               nodes_NodeSets = replicate 3 \<lparr> SelectionAttributes = None \<rparr> \<rparr>"
  have h1: "in_Nodes (exampleNodeSetsInput 7 3) = Some ?nc"
    by (simp add: exampleNodeSetsInput_def)
  have h2: "nodes_NodeSets ?nc \<noteq> []" by (simp add: numeral_3_eq_3)
  have h3: "(7::int) = sint (nodes_Count ?nc)" by simp
  have h4: "(3::int) = int (length (nodes_NodeSets ?nc))" by simp
  have h5: "(0::int) \<le> 7" "(7::int) \<le> 3 * 2147483647" by simp_all
  obtain r where r: "nodeSets (exampleNodeSetsInput 7 3) = Some r"
    "(\<Sum>ns\<leftarrow>r. sint (ns_Count ns)) = 7" "int (length r) = min 3 7"
    "\<forall>i<length r. sint (ns_Count (r ! i)) = (if int i < 7 mod 3 then 7 div 3 + 1 else 7 div 3)"
    using nodeSets_even_distribution [OF h1 h2 h3 h4 h5] by blast
  have len: "length r = 3" using r(3) by simp
  have "sint (ns_Count (r ! 0)) = 3" "sint (ns_Count (r ! 1)) = 2" "sint (ns_Count (r ! 2)) = 2"
    using r(4) len by simp_all
  then show ?thesis using r(1,2) len by (simp add: comp_def)
qed

text \<open>
  C1 as stated fails outside that range. With a node count of \<open>-1\<close> no node set is returned,
  so the counts sum to 0 and not to \<open>-1\<close>; with a node count of \<open>2 ^ 32\<close> and one node set, the
  conversion to \<open>int32\<close> leaves a node set whose \<open>Count\<close> is 0.
\<close>

theorem nodeSets_claim_counterexample:
  "nodeSets (exampleNodeSetsInput (- 1) 1) = Some []
   \<and> sum_list (map sint (map ns_Count (the (nodeSets (exampleNodeSetsInput (- 1) 1))))) \<noteq> - 1
   \<and> map ns_Count (the (nodeSets (exampleNodeSetsInput 4294967296 1))) = [0]"
  by (simp add: exampleNodeSetsInput_def nodeSets_def numNodes_def go_quo_def go_rem_def
      to_int32_def to_int64_def buildNodeSet_def nodeSetTemplate_def)

subsection \<open>JVM heap size\<close>

lemma Dec_value_AsDec: "Dec_value (AsDec q) = Quantity_value q"
  by (simp add: Dec_value_def AsDec_def NewDec_def Quantity_value_def)

lemma QuoRoundFloor_int:
  "QuoRoundFloor x (NewDec d 0) = NewDec \<lfloor>Dec_value x / of_int d\<rfloor> 0"
proof -
  let ?n = "unscaled x * 10 ^ nat (- scale x)"
  let ?d = "d * 10 ^ nat (scale x)"
  have "Dec_value x / of_int d = of_int ?n / of_int ?d"
    by (simp add: Dec_value_def)
  then have "\<lfloor>Dec_value x / of_int d\<rfloor> = ?n div ?d"
    by (simp only: floor_divide_of_int_eq)
  then show ?thesis by (simp add: QuoRoundFloor_def NewDec_def)
qed

lemma Dec_value_int: "Dec_value (NewDec k 0) = of_int k"
  by (simp add: Dec_value_def NewDec_def)

lemma nested_floor: "\<lfloor>(of_int \<lfloor>x / 2\<rfloor> :: real) / 1024\<rfloor> = \<lfloor>x / 2 / 1024\<rfloor>" for x :: real
proof -
  have "\<lfloor>(of_int \<lfloor>x / 2\<rfloor> :: real) / of_int 1024\<rfloor> = \<lfloor>x / 2\<rfloor> div 1024"
    by (rule floor_divide_of_int_eq)
  moreover have "\<lfloor>x / 2 / of_int 1024\<rfloor> = \<lfloor>x / 2\<rfloor> div 1024"
    by (rule floor_divide_real_eq_div) simp
  ultimately show ?thesis by simp
qed

lemma Dec_Cmp_int:
  "Dec_Cmp (NewDec a 0) (NewDec b 0) = (if a < b then - 1 else if a = b then 0 else 1)"
  by (simp add: Dec_Cmp_def NewDec_def)

lemma Int64_id: "- 9223372036854775808 \<le> x \<Longrightarrow> x < 9223372036854775808 \<Longrightarrow> Int64 x = x"
  by (simp add: Int64_def sint_sbintrunc' signed_take_bit_int_eq_self)

lemma unscaled_NewDec: "unscaled (NewDec u s) = u"
  by (simp add: NewDec_def)

lemma memoryQuantityToJVMHeapSize_rounded:
  fixes q :: Quantity
  defines "r \<equiv> 1024 * \<lfloor>Quantity_value q / 2 / 1024\<rfloor>"
  shows "memoryQuantityToJVMHeapSize q =
           strings_TrimSuffix
             (BinarySI_String (if 27917287424 < r then 27917287424
                               else if r < 2097152 then 2097152 else Int64 r)) ''i''"
proof -
  have halved: "QuoRoundFloor (AsDec q) (NewDec 2 0) = NewDec \<lfloor>Quantity_value q / 2\<rfloor> 0"
    using QuoRoundFloor_int [of "AsDec q" 2] by (simp add: Dec_value_AsDec)
  have factor: "QuoRoundFloor (NewDec \<lfloor>Quantity_value q / 2\<rfloor> 0) (NewDec 1024 0)
                  = NewDec \<lfloor>Quantity_value q / 2 / 1024\<rfloor> 0"
    using QuoRoundFloor_int [of "NewDec \<lfloor>Quantity_value q / 2\<rfloor> 0" 1024]
      nested_floor [of "Quantity_value q"]
    by (simp add: Dec_value_int)
  have rounded: "Dec_Mul (NewDec \<lfloor>Quantity_value q / 2 / 1024\<rfloor> 0) (NewDec 1024 0) = NewDec r 0"
    by (simp add: Dec_Mul_def NewDec_def r_def mult.commute)
  have lims: "Int64 2097152 = 2097152" "Int64 27917287424 = 27917287424"
    by (simp_all add: Int64_id)
  show ?thesis
    unfolding memoryQuantityToJVMHeapSize_def Let_def halved factor rounded Dec_Cmp_int unscaled_NewDec lims
    by simp
qed

text \<open>
  C2. For every memory quantity \<open>q\<close>, \<open>memoryQuantityToJVMHeapSize\<close> returns the rendering, with
  the trailing \<open>i\<close> of the binary suffix removed, of the quantity whose byte value is half of
  \<open>q\<close> rounded down to a multiple of 1024 and clamped to the range from 2097152 to 27917287424.
\<close>

theorem memoryQuantityToJVMHeapSize_spec:
  "memoryQuantityToJVMHeapSize q =
     strings_TrimSuffix (BinarySI_String (jvmHeapBytes_spec q)) ''i''"
proof -
  define r where "r = 1024 * \<lfloor>Quantity_value q / 2 / 1024\<rfloor>"
  have clamp: "(if 27917287424 < r then 27917287424 else if r < 2097152 then 2097152 else Int64 r)
          = max 2097152 (min 27917287424 r)"
    by (simp add: Int64_id max_def min_def)
  have "memoryQuantityToJVMHeapSize q =
          strings_TrimSuffix
            (BinarySI_String (if 27917287424 < r then 27917287424
                              else if r < 2097152 then 2097152 else Int64 r)) ''i''"
    unfolding r_def by (rule memoryQuantityToJVMHeapSize_rounded)
  also have "\<dots> = strings_TrimSuffix (BinarySI_String (max 2097152 (min 27917287424 r))) ''i''"
    by (simp only: clamp)
  finally show ?thesis
    unfolding jvmHeapBytes_spec_def r_def .
qed

lemma spec_2G: "jvmHeapBytes_spec \<lparr> q_value = 2, q_scale = 9, q_Format = DecimalSI \<rparr> = 999999488"
  by (simp add: jvmHeapBytes_spec_def Quantity_value_def)

lemma str_2G: "BinarySI_String 999999488 = ''976562Ki''"
  by (simp add: BinarySI_String_def removeInt64Factors1024.simps int_decimal_def nat_decimal.simps
      digit_char_def binarySuffix_def)

theorem memoryQuantityToJVMHeapSize_spec_witness:
  "memoryQuantityToJVMHeapSize \<lparr> q_value = 2, q_scale = 9, q_Format = DecimalSI \<rparr> = ''976562K''"
  using memoryQuantityToJVMHeapSize_spec [of "\<lparr> q_value = 2, q_scale = 9, q_Format = DecimalSI \<rparr>"]
  by (simp add: spec_2G str_2G strings_TrimSuffix_def)

lemma ex_4Gi: "memoryQuantityToJVMHeapSize \<lparr> q_value = 4294967296, q_scale = 0, q_Format = BinarySI \<rparr> = ''2G''"
  by (simp add: memoryQuantityToJVMHeapSize_spec jvmHeapBytes_spec_def Quantity_value_def
      BinarySI_String_def removeInt64Factors1024.simps int_decimal_def nat_decimal.simps
      digit_char_def binarySuffix_def strings_TrimSuffix_def)

lemma ex_100m: "memoryQuantityToJVMHeapSize \<lparr> q_value = 100, q_scale = - 3, q_Format = DecimalSI \<rparr> = ''2M''"
  by (simp add: memoryQuantityToJVMHeapSize_spec jvmHeapBytes_spec_def Quantity_value_def
      BinarySI_String_def removeInt64Factors1024.simps int_decimal_def nat_decimal.simps
      digit_char_def binarySuffix_def strings_TrimSuffix_def)

lemma ex_100Gi: "memoryQuantityToJVMHeapSize \<lparr> q_value = 107374182400, q_scale = 0, q_Format = BinarySI \<rparr> = ''26G''"
  by (simp add: memoryQuantityToJVMHeapSize_spec jvmHeapBytes_spec_def Quantity_value_def
      BinarySI_String_def removeInt64Factors1024.simps int_decimal_def nat_decimal.simps
      digit_char_def binarySuffix_def strings_TrimSuffix_def)

subsection \<open>Resource requirement overrides\<close>

lemma Quantity_Value_250m_100m: "Quantity_Value MustParse_250m = 1" "Quantity_Value MustParse_100m = 1"
  by (simp_all add: Quantity_Value_def MustParse_250m_def MustParse_100m_def)

lemma cmp_250m_100m: "Quantity_Cmp MustParse_250m MustParse_100m = 1"
  by (simp add: Quantity_Cmp_def Dec_Cmp_def AsDec_def NewDec_def MustParse_250m_def MustParse_100m_def)

text \<open>
  C10 at a failing input. The defaults request \<open>250m\<close> of CPU; the user sets only a CPU limit of
  \<open>100m\<close>. \<open>Value()\<close> rounds both up to 1, the comparison \<open>1 > 1\<close> fails, and the returned
  requirements keep the request \<open>250m\<close> above the limit \<open>100m\<close>.
\<close>

theorem overrideResourceRequirements_cpu_limit_only:
  "\<exists>r. overrideResourceRequirements defaultResources cpuLimitOnly = Inr r
       \<and> rl_lookup (Limits r) ''cpu'' = Some MustParse_100m
       \<and> rl_lookup (Requests r) ''cpu'' = Some MustParse_250m
       \<and> Quantity_Cmp MustParse_250m MustParse_100m = 1"
  by (simp add: overrideResourceRequirements_def overrideLimitsCpu_def overrideLimitsMemory_def
      overrideRequestsCpu_def overrideRequestsMemory_def andThen_def rl_lookup_def rl_assign_def
      rl_Name_def Cpu_def Memory_def defaultResources_def cpuLimitOnly_def Quantity_Value_250m_100m Let_def
      cmp_250m_100m)

subsection \<open>Node set names\<close>

lemma unat_xor_byte: "unat ((h :: 64 word) XOR ucast (c :: 8 word)) = unat h XOR unat c"
proof -
  have "unat (ucast c :: 64 word) = unat c"
    by (simp add: unsigned_ucast_eq take_bit_nat_eq_self order_less_trans [OF unsigned_less [of c]])
  then show ?thesis by (simp add: unsigned_xor_eq)
qed

lemma fnv64a_loop_spec: "unat (fnv64a_loop h data) = fnv1a64_spec (unat h) (map unat data)"
proof (induction data arbitrary: h)
  case Nil
  then show ?case by simp
next
  case (Cons c data)
  have "unat ((h XOR ucast c) * 1099511628211) = ((unat h XOR unat c) * 1099511628211) mod 2 ^ 64"
    by (simp add: unat_word_ariths unat_xor_byte)
  then show ?case by (simp add: Cons.IH)
qed

lemma unat_byte_of: "unat (ucast (drop_bit k (h :: 64 word)) :: 8 word) = (unat h div 2 ^ k) mod 256"
proof -
  have "unat (ucast (drop_bit k h) :: 8 word) = take_bit 8 (unat (drop_bit k h))"
    by (simp add: unsigned_ucast_eq)
  also have "\<dots> = take_bit 8 (drop_bit k (unat h))"
    by (simp only: unat_drop_bit_eq)
  also have "\<dots> = (unat h div 2 ^ k) mod 256"
    by (simp add: drop_bit_eq_div take_bit_eq_mod)
  finally show ?thesis .
qed

lemma unat_hi_nibble: "unat (drop_bit 4 (v :: 8 word)) = unat v div 16"
proof -
  have "unat (drop_bit 4 v) = drop_bit 4 (unat v)" by (simp only: unat_drop_bit_eq)
  then show ?thesis by (simp add: drop_bit_eq_div)
qed

lemma unat_lo_nibble: "unat ((v :: 8 word) AND 15) = unat v mod 16"
proof -
  have "(15 :: 8 word) = mask 4" by (simp add: mask_eq_exp_minus_1)
  then have "unat (v AND 15) = unat (take_bit 4 v)" by (simp only: take_bit_eq_mask)
  also have "\<dots> = take_bit 4 (unat v)" by (simp add: unsigned_take_bit_eq)
  also have "\<dots> = unat v mod 16" by (simp add: take_bit_eq_mod)
  finally show ?thesis .
qed

lemma hex_digits_2: "hex_digits 2 m = [''0123456789abcdef'' ! ((m div 16) mod 16), ''0123456789abcdef'' ! (m mod 16)]"
proof -
  have "hex_digits (Suc (Suc 0)) m = [''0123456789abcdef'' ! ((m div 16) mod 16), ''0123456789abcdef'' ! (m mod 16)]"
    by (simp only: hex_digits.simps append.simps)
  then show ?thesis by (simp only: numeral_2_eq_2)
qed

lemma hex_digits_step:
  "hex_digits (Suc (Suc k)) n = hex_digits k (n div 256) @ hex_digits 2 (n mod 256)"
proof -
  have a: "n div 16 div 16 = n div 256" by (simp add: div_mult2_eq [symmetric])
  have "n mod 256 = n mod (16 * 16)" by simp
  also have "\<dots> = 16 * (n div 16 mod 16) + n mod 16" by (rule mod_mult2_eq)
  finally have m: "n mod 256 = 16 * (n div 16 mod 16) + n mod 16" .
  have b: "(n mod 256 div 16) mod 16 = (n div 16) mod 16" by (simp add: m)
  have c: "n mod 256 mod 16 = n mod 16" by (rule mod_mod_cancel) simp
  have "hex_digits (Suc (Suc k)) n =
          hex_digits k (n div 16 div 16) @
          [''0123456789abcdef'' ! ((n div 16) mod 16), ''0123456789abcdef'' ! (n mod 16)]"
    by (simp only: hex_digits.simps append_assoc append.simps)
  then show ?thesis by (simp only: a hex_digits_2 b c)
qed

lemma hex_byte: "hex_EncodeToString [v] = hex_digits 2 (unat v)"
proof -
  have "unat v < 256" using unsigned_less [of v] by simp
  then have "(unat v div 16) mod 16 = unat v div 16" by simp
  then show ?thesis
    by (simp add: hex_digits_2 unat_hi_nibble unat_lo_nibble hextable_def)
qed

lemma hex_EncodeToString_Cons: "hex_EncodeToString (v # src) = hex_digits 2 (unat v) @ hex_EncodeToString src"
  using hex_byte [of v] by simp

lemma hex_digits_bytes:
  "hex_digits 16 n =
     hex_digits 2 (n div 2 ^ 56 mod 256) @ hex_digits 2 (n div 2 ^ 48 mod 256) @
     hex_digits 2 (n div 2 ^ 40 mod 256) @ hex_digits 2 (n div 2 ^ 32 mod 256) @
     hex_digits 2 (n div 2 ^ 24 mod 256) @ hex_digits 2 (n div 2 ^ 16 mod 256) @
     hex_digits 2 (n div 2 ^ 8 mod 256) @ hex_digits 2 (n mod 256)"
proof -
  define n1 where "n1 = n div 256"
  define n2 where "n2 = n1 div 256"
  define n3 where "n3 = n2 div 256"
  define n4 where "n4 = n3 div 256"
  define n5 where "n5 = n4 div 256"
  define n6 where "n6 = n5 div 256"
  define n7 where "n7 = n6 div 256"
  have s1: "hex_digits 16 n = hex_digits 14 n1 @ hex_digits 2 (n mod 256)"
    using hex_digits_step [of 14 n] by (simp add: n1_def)
  have s2: "hex_digits 14 n1 = hex_digits 12 n2 @ hex_digits 2 (n1 mod 256)"
    using hex_digits_step [of 12 n1] by (simp add: n2_def)
  have s3: "hex_digits 12 n2 = hex_digits 10 n3 @ hex_digits 2 (n2 mod 256)"
    using hex_digits_step [of 10 n2] by (simp add: n3_def)
  have s4: "hex_digits 10 n3 = hex_digits 8 n4 @ hex_digits 2 (n3 mod 256)"
    using hex_digits_step [of 8 n3] by (simp add: n4_def)
  have s5: "hex_digits 8 n4 = hex_digits 6 n5 @ hex_digits 2 (n4 mod 256)"
    using hex_digits_step [of 6 n4] by (simp add: n5_def)
  have s6: "hex_digits 6 n5 = hex_digits 4 n6 @ hex_digits 2 (n5 mod 256)"
    using hex_digits_step [of 4 n5] by (simp add: n6_def)
  have s7: "hex_digits 4 n6 = hex_digits 2 n7 @ hex_digits 2 (n6 mod 256)"
    using hex_digits_step [of 2 n6] by (simp add: n7_def)
  have s8: "hex_digits 2 n7 = hex_digits 0 (n7 div 256) @ hex_digits 2 (n7 mod 256)"
    using hex_digits_step [of 0 n7] by (simp add: numeral_2_eq_2)
  have e1: "n1 = n div 2 ^ 8" by (simp add: n1_def)
  have e2: "n2 = n div 2 ^ 16" by (simp add: n2_def e1 div_mult2_eq [symmetric])
  have e3: "n3 = n div 2 ^ 24" by (simp add: n3_def e2 div_mult2_eq [symmetric])
  have e4: "n4 = n div 2 ^ 32" by (simp add: n4_def e3 div_mult2_eq [symmetric])
  have e5: "n5 = n div 2 ^ 40" by (simp add: n5_def e4 div_mult2_eq [symmetric])
  have e6: "n6 = n div 2 ^ 48" by (simp add: n6_def e5 div_mult2_eq [symmetric])
  have e7: "n7 = n div 2 ^ 56" by (simp add: n7_def e6 div_mult2_eq [symmetric])
  have "hex_digits 16 n =
     hex_digits 2 (n7 mod 256) @ hex_digits 2 (n6 mod 256) @
     hex_digits 2 (n5 mod 256) @ hex_digits 2 (n4 mod 256) @
     hex_digits 2 (n3 mod 256) @ hex_digits 2 (n2 mod 256) @
     hex_digits 2 (n1 mod 256) @ hex_digits 2 (n mod 256)"
    by (simp only: s1 s2 s3 s4 s5 s6 s7 s8 hex_digits.simps(1) append_assoc append.simps)
  then show ?thesis by (simp only: e1 e2 e3 e4 e5 e6 e7)
qed

lemma hex_Sum_spec: "hex_EncodeToString (fnv64a_Sum h []) = hex16_spec (unat h)"
proof -
  have last: "unat (ucast h :: 8 word) = unat h mod 256"
    using unat_byte_of [of 0 h] by simp
  show ?thesis
    unfolding fnv64a_Sum_def hex16_spec_def hex_digits_bytes append.simps
      hex_EncodeToString_Cons unat_byte_of last hex_EncodeToString.simps(1)
    by simp
qed

text \<open>
  C7. \<open>nodeSetName\<close> is a function of the PVC template alone: it returns the sixteen
  hexadecimal digits of the 64-bit FNV-1a hash of the template's JSON serialization, and the
  fixed name \<open>es\<close> when serialization fails (\<open>Write\<close> of the hash never fails). Equal
  templates therefore get equal names.
\<close>

theorem nodeSetName_fnv1a_hex:
  "nodeSetName json_Marshal pvcTemplate = nodeSetName_spec json_Marshal pvcTemplate"
proof (cases "json_Marshal pvcTemplate")
  case (Inl err)
  then show ?thesis by (simp add: nodeSetName_def nodeSetName_spec_def)
next
  case (Inr templateBytes)
  have "unat (fnv64a_loop fnv_New64a templateBytes) =
          fnv1a64_spec 14695981039346656037 (map unat templateBytes)"
    by (simp add: fnv64a_loop_spec fnv_New64a_def)
  then show ?thesis
    using Inr by (simp add: nodeSetName_def nodeSetName_spec_def fnv64a_Write_def hex_Sum_spec)
qed

theorem nodeSetName_fnv1a_hex_witness:
  "nodeSetName (\<lambda>pvc. Inr pvc) [97] = ''af63dc4c8601ec8c''
   \<and> nodeSetName (\<lambda>pvc. Inl ''unsupported type'') [97 :: 8 word] = ''es''"
proof -
  have "fnv1a64_spec 14695981039346656037 (map unat [97 :: 8 word]) = 12638187200555641996"
    by simp
  then have "nodeSetName_spec (\<lambda>pvc. Inr pvc) [97] = ''af63dc4c8601ec8c''"
    by (simp add: nodeSetName_spec_def hex16_spec_def hex_digits_bytes hex_digits_2)
  moreover have "nodeSetName_spec (\<lambda>pvc. Inl ''unsupported type'') [97 :: 8 word] = ''es''"
    by (simp add: nodeSetName_spec_def)
  ultimately show ?thesis
    by (simp only: nodeSetName_fnv1a_hex)
qed

subsection \<open>Provider discovery\<close>






lemma exampleCluster_queries:
  "queriesSucceed (exampleCluster groups cms)"
  "groupNamesDistinct (exampleCluster groups cms) = distinct groups"
  "isDockerEE (exampleCluster groups cms) = Inr False"
  "isEKS (exampleCluster groups cms) = Inr (''eks-certificates-controller'' \<in> set cms)"
  "isRKE2 (exampleCluster groups cms) = Inr (''rke2'' \<in> set cms)"
  by (simp_all add: queriesSucceed_def groupNamesDistinct_def exampleCluster_def isDockerEE_def
      isEKS_def isRKE2_def strings_HasPrefix_def)



text \<open>
  Distinct group names matter: were a group name listed twice, the loop would append its
  provider twice and report a conflict.
\<close>

lemma AutoDiscoverProvider_duplicate_group:
  "AutoDiscoverProvider (exampleCluster [''config.openshift.io'', ''config.openshift.io''] []) =
     (ProviderNone,
      Some ''Failed to assert provider caused by detection of more than one. Detected providers: [OpenShift OpenShift]'')"
proof -
  have "autodetectFromGroup (exampleCluster [''config.openshift.io'', ''config.openshift.io''] []) =
          Inr [ProviderOpenShift, ProviderOpenShift]"
    by (simp add: autodetectFromGroup_def exampleCluster_def)
  then show ?thesis
    unfolding AutoDiscoverProvider_def exampleCluster_queries
    by (simp add: Providers_string_def Provider_string_def)
qed

subsection \<open>Rendering\<close>












lemma objectsFinalizeDeletion_spec:
  fixes es :: "'x elasticsearchComponent"
  shows "objectsFinalizeDeletion es =
     ([],
      (case cfg_Elasticsearch (es_cfg es) of
         None \<Rightarrow> []
       | Some e \<Rightarrow> if cr_DeletionTimestamp e = None then [ElasticsearchObject e] else [])
      @ (case cfg_Kibana (es_cfg es) of
           None \<Rightarrow> []
         | Some k \<Rightarrow> if cr_DeletionTimestamp k = None then [KibanaObject k] else []),
      es)"
  by (simp add: objectsFinalizeDeletion_def Let_def split: option.splits)

text \<open>
  C9. When the LogStorage is present and carries a deletion timestamp, \<open>Objects\<close> returns no
  object to create, and the objects to delete are exactly the Elasticsearch and the Kibana
  object of the configuration that are present and carry no deletion timestamp, each once;
  the configuration is left as it was.
\<close>

theorem Objects_finalize_deletion:
  fixes es :: "'x elasticsearchComponent"
  assumes "cfg_LogStorage (es_cfg es) = Some logStorage"
    and "ls_DeletionTimestamp logStorage \<noteq> None"
  shows "\<exists>toDelete :: 'o Object list.
           Objects render CopyToNamespace es = Inr ([], toDelete, es)
         \<and> distinct toDelete
         \<and> set toDelete =
             {obj. (\<exists>e. cfg_Elasticsearch (es_cfg es) = Some e \<and> cr_DeletionTimestamp e = None
                      \<and> obj = ElasticsearchObject e)
                 \<or> (\<exists>k. cfg_Kibana (es_cfg es) = Some k \<and> cr_DeletionTimestamp k = None
                      \<and> obj = KibanaObject k)}"
proof -
  have "Objects render CopyToNamespace es = Inr (objectsFinalizeDeletion es)"
    using assms by (simp add: Objects_def)
  then show ?thesis
    unfolding objectsFinalizeDeletion_spec
    by (auto split: option.splits)
qed

text \<open>C9 on a LogStorage being deleted, with Kibana already being deleted too.\<close>

theorem Objects_finalize_deletion_witness:
  "Objects renderName copyToNamespace deletingComponent =
     Inr ([], [ElasticsearchObject \<lparr> cr_Name = ''tigera-secure'', cr_DeletionTimestamp = None \<rparr>],
          deletingComponent)"
proof -
  let ?e = "\<lparr> cr_Name = ''tigera-secure'', cr_DeletionTimestamp = None \<rparr>"
  have h1: "cfg_LogStorage (es_cfg deletingComponent) =
              Some (exampleLogStorage (Some ''2022-09-01T00:00:00Z''))"
    by (simp add: deletingComponent_def LogStorage_def exampleConfiguration_def)
  have h2: "ls_DeletionTimestamp (exampleLogStorage (Some ''2022-09-01T00:00:00Z'')) \<noteq> None"
    by (simp add: exampleLogStorage_def)
  obtain toDelete :: "renderer Object list" where
    run: "Objects renderName copyToNamespace deletingComponent = Inr ([], toDelete, deletingComponent)"
    and dist: "distinct toDelete"
    and elems: "set toDelete =
             {obj. (\<exists>e. cfg_Elasticsearch (es_cfg deletingComponent) = Some e
                        \<and> cr_DeletionTimestamp e = None \<and> obj = ElasticsearchObject e)
                 \<or> (\<exists>k. cfg_Kibana (es_cfg deletingComponent) = Some k
                        \<and> cr_DeletionTimestamp k = None \<and> obj = KibanaObject k)}"
    using Objects_finalize_deletion [OF h1 h2, of renderName copyToNamespace] by blast
  have "set toDelete = {ElasticsearchObject ?e}"
    unfolding elems
    by (auto simp: deletingComponent_def LogStorage_def exampleConfiguration_def)
  moreover from this have "length toDelete = 1"
    using dist distinct_card [of toDelete] by simp
  ultimately have "toDelete = [ElasticsearchObject ?e]"
    by (cases toDelete) auto
  then show ?thesis using run by simp
qed



end
